theory Spec2Isabelle
  imports Main
begin

section \<open>Version resolution and installation orchestrator\<close>

text \<open>
  The orchestrator is the function \<open>install\<close> of \<open>useInstanceVersionInstall\<close>.
  It reads the list of local version headers once, consults the remote metadata cache,
  and calls the installers and the version service. Every \<open>await\<close> of the source is a
  step that either yields a value or rejects; a rejection leaves the function at once.
\<close>

subsection \<open>Data\<close>

text \<open>The opaque reason with which a collaborator rejects.\<close>

type_synonym failure = string

datatype side = Client | Server

text \<open>
  Modelled from the spec: the declaration of \<open>RuntimeVersions\<close> in the runtime API is
  not part of the sources. The base version is required, every loader version is an
  optional string (\<open>None\<close> is JavaScript's \<open>undefined\<close>); the fields are those that
  \<open>install\<close> reads.
\<close>

record RuntimeVersions =
  minecraft :: string
  forge :: "string option"
  neoForged :: "string option"
  fabricLoader :: "string option"
  quiltLoader :: "string option"
  optifine :: "string option"
  labyMod :: "string option"

text \<open>
  Modelled from the spec: the declaration of \<open>LocalVersionHeader\<close> is not part of the
  sources either. All fields are strings, the empty string meaning "not part of this
  artifact"; the fields are those that \<open>install\<close> compares.
\<close>

record LocalVersionHeader =
  id :: string
  minecraft :: string
  forge :: string
  neoForged :: string
  fabric :: string
  quilt :: string
  optifine :: string
  labyMod :: string

text \<open>
  Entries of the base-version catalog and of the Forge catalog, with the fields that
  \<open>install\<close> reads; the installer reference is opaque.
\<close>

record MinecraftVersion =
  id :: string
  url :: string

record ForgeVersion =
  version :: string
  installer :: "string option"

text \<open>The argument objects of \<open>installForge\<close> and \<open>installOptifine\<close>.\<close>

record InstallForgeOptions =
  mcversion :: string
  version :: string
  installer :: "string option"
  side :: side

record InstallOptifineOptions =
  type :: string
  patch :: string
  mcversion :: string
  inheritFrom :: "string option"

text \<open>What the remote metadata cache can hold under a key.\<close>

datatype cached =
  MinecraftVersionList "MinecraftVersion list"
| ForgeVersionList "ForgeVersion list"
| NeoForgedVersionList "string list"
| LabyModManifest string

text \<open>
  The observable effects of one call: a fetch of a catalog (the fetcher really ran),
  an installer invocation, a refresh of a local version.
\<close>

datatype action =
  Fetch string
| InstallMinecraft "MinecraftVersion option" side
| InstallForge InstallForgeOptions
| InstallNeoForged string string
| InstallOptifine InstallOptifineOptions
| InstallFabric string string
| InstallQuilt string string
| InstallLabyModVersion string string
| RefreshVersion string

record world =
  cache :: "string \<rightharpoonup> cached"
  log :: "action list"

text \<open>
  The services \<open>install\<close> closes over: what each call answers. \<open>installNeoForged\<close>,
  \<open>installFabric\<close>, \<open>installQuilt\<close> and \<open>installLabyModVersion\<close> take the two fields
  of their argument object in the order the source writes them.
  \<open>parseOptifineVersion\<close> is a pure helper of the runtime API that is not part of the
  sources; it is a parameter like the services.
\<close>

record services =
  getMinecraftVersionList :: "failure + MinecraftVersion list"
  getForgeVersionList :: "string \<Rightarrow> failure + ForgeVersion list"
  getNeoForgedVersionList :: "string \<Rightarrow> failure + string list"
  getLabyModManifest :: "failure + string"
  installMinecraft :: "MinecraftVersion option \<Rightarrow> side \<Rightarrow> failure + unit"
  installForge :: "InstallForgeOptions \<Rightarrow> failure + string"
  installNeoForged :: "string \<Rightarrow> string \<Rightarrow> failure + string"
  installOptifine :: "InstallOptifineOptions \<Rightarrow> failure + string"
  installFabric :: "string \<Rightarrow> string \<Rightarrow> failure + string"
  installQuilt :: "string \<Rightarrow> string \<Rightarrow> failure + string"
  installLabyModVersion :: "string \<Rightarrow> string \<Rightarrow> failure + string"
  refreshVersion :: "string \<Rightarrow> failure + unit"
  parseOptifineVersion :: "string \<Rightarrow> string \<times> string"

subsection \<open>Asynchronous steps\<close>

type_synonym 'a io = "world \<Rightarrow> (failure + 'a) \<times> world"

definition return_io :: "'a \<Rightarrow> 'a io" where
  "return_io x w = (Inr x, w)"

text \<open>\<open>await m\<close> followed by the rest of the function: a rejection ends the call.\<close>

definition await :: "'a io \<Rightarrow> ('a \<Rightarrow> 'b io) \<Rightarrow> 'b io" where
  "await m k w = (case m w of (Inl e, w') \<Rightarrow> (Inl e, w') | (Inr x, w') \<Rightarrow> k x w')"

text \<open>A call of a service: the action is recorded, the outcome is the service's answer.\<close>

definition call :: "action \<Rightarrow> failure + 'a \<Rightarrow> 'a io" where
  "call a outcome w = (outcome, w\<lparr>log := log w @ [a]\<rparr>)"

text \<open>
  Modelled from the spec: \<open>useCacheFetch\<close> of \<open>./cache\<close> is not part of the sources.
  The spec gives \<open>getOrFetch(key, fetcher)\<close>, memoized for the life of the process:
  a key that is present answers without running the fetcher; otherwise the fetcher
  runs, and its value is stored under the key. A fetcher that rejects stores nothing.
\<close>

definition getCacheOrFetch :: "string \<Rightarrow> failure + cached \<Rightarrow> cached io" where
  "getCacheOrFetch key fetcher w =
     (case cache w key of
        Some v \<Rightarrow> (Inr v, w)
      | None \<Rightarrow>
          (case fetcher of
             Inl e \<Rightarrow> (Inl e, w\<lparr>log := log w @ [Fetch key]\<rparr>)
           | Inr v \<Rightarrow> (Inr v, w\<lparr>cache := (cache w)(key \<mapsto> v), log := log w @ [Fetch key]\<rparr>)))"

text \<open>
  The cache is untyped; the source trusts that a key holds what its own fetcher
  stored. Reading a foreign value is a type error in the model.
\<close>

definition asMinecraftVersionList :: "cached \<Rightarrow> MinecraftVersion list io" where
  "asMinecraftVersionList c w =
     (case c of MinecraftVersionList vs \<Rightarrow> (Inr vs, w) | _ \<Rightarrow> (Inl ''TypeError'', w))"

definition asForgeVersionList :: "cached \<Rightarrow> ForgeVersion list io" where
  "asForgeVersionList c w =
     (case c of ForgeVersionList vs \<Rightarrow> (Inr vs, w) | _ \<Rightarrow> (Inl ''TypeError'', w))"

definition asNeoForgedVersionList :: "cached \<Rightarrow> string list io" where
  "asNeoForgedVersionList c w =
     (case c of NeoForgedVersionList vs \<Rightarrow> (Inr vs, w) | _ \<Rightarrow> (Inl ''TypeError'', w))"

definition asLabyModManifest :: "cached \<Rightarrow> string io" where
  "asLabyModManifest c w =
     (case c of LabyModManifest m \<Rightarrow> (Inr m, w) | _ \<Rightarrow> (Inl ''TypeError'', w))"

subsection \<open>JavaScript truthiness of an optional string\<close>

definition truthy :: "string option \<Rightarrow> bool" where
  "truthy x = (case x of None \<Rightarrow> False | Some s \<Rightarrow> s \<noteq> [])"

text \<open>\<open>if (x) { f x } else { g }\<close>, where \<open>x\<close> is a string or undefined.\<close>

definition if_truthy :: "string option \<Rightarrow> (string \<Rightarrow> 'a) \<Rightarrow> 'a \<Rightarrow> 'a" where
  "if_truthy x f g = (case x of None \<Rightarrow> g | Some s \<Rightarrow> if s \<noteq> [] then f s else g)"

text \<open>\<open>x || ''\<close>\<close>

definition or_empty :: "string option \<Rightarrow> string" where
  "or_empty x = (case x of None \<Rightarrow> [] | Some s \<Rightarrow> s)"

definition startsWith :: "string \<Rightarrow> string \<Rightarrow> bool" where
  "startsWith s p = (take (length p) s = p)"

subsection \<open>The function \<open>install\<close>\<close>

text \<open>
  Lines 29 to 41: the base version. The catalog is asked for before anything else;
  \<open>find(...)!\<close> is a compile-time assertion only, so a missing entry is passed on as
  \<open>undefined\<close>. Both arms of the test on \<open>side\<close> make the same call.
\<close>

definition install_base ::
  "services \<Rightarrow> LocalVersionHeader list \<Rightarrow> RuntimeVersions \<Rightarrow> side \<Rightarrow> bool \<Rightarrow> unit io" where
  "install_base sv local runtime sd jar =
     (let minecraft = RuntimeVersions.minecraft runtime in
      await (getCacheOrFetch ''/minecraft-versions''
               (map_sum (\<lambda>e. e) MinecraftVersionList (getMinecraftVersionList sv)))
        (\<lambda>mcVersions.
           (case find (\<lambda>v. LocalVersionHeader.id v = minecraft) local of
              Some localMinecraft \<Rightarrow>
                if jar then
                  await (asMinecraftVersionList mcVersions)
                    (\<lambda>versions.
                       let metadata = find (\<lambda>v. MinecraftVersion.id v = minecraft) versions in
                       (case sd of
                          Client \<Rightarrow> call (InstallMinecraft metadata sd) (installMinecraft sv metadata sd)
                        | Server \<Rightarrow> call (InstallMinecraft metadata sd) (installMinecraft sv metadata sd)))
                else
                  call (RefreshVersion (LocalVersionHeader.id localMinecraft))
                    (refreshVersion sv (LocalVersionHeader.id localMinecraft))
            | None \<Rightarrow>
                await (asMinecraftVersionList mcVersions)
                  (\<lambda>versions.
                     let metadata = find (\<lambda>v. MinecraftVersion.id v = minecraft) versions in
                     (case sd of
                        Client \<Rightarrow> call (InstallMinecraft metadata sd) (installMinecraft sv metadata sd)
                      | Server \<Rightarrow> call (InstallMinecraft metadata sd) (installMinecraft sv metadata sd))))))"

text \<open>Lines 43 to 55: the Forge branch; its value is the variable \<open>forgeVersion\<close>.\<close>

definition install_forge ::
  "services \<Rightarrow> LocalVersionHeader list \<Rightarrow> RuntimeVersions \<Rightarrow> side \<Rightarrow> string option io" where
  "install_forge sv local runtime sd =
     (let minecraft = RuntimeVersions.minecraft runtime in
      if_truthy (RuntimeVersions.forge runtime)
        (\<lambda>forge.
           (case find (\<lambda>v. LocalVersionHeader.forge v = forge
                          \<and> LocalVersionHeader.minecraft v = minecraft) local of
              None \<Rightarrow>
                await (getCacheOrFetch (''/forge-versions/'' @ minecraft)
                         (map_sum (\<lambda>e. e) ForgeVersionList (getForgeVersionList sv minecraft)))
                  (\<lambda>c. await (asForgeVersionList c)
                     (\<lambda>forgeVersions.
                        let found = find (\<lambda>v. ForgeVersion.version v = forge) forgeVersions;
                            forgeVersionId =
                              (case found of Some f \<Rightarrow> ForgeVersion.version f | None \<Rightarrow> forge);
                            opts = \<lparr>InstallForgeOptions.mcversion = minecraft,
                                    InstallForgeOptions.version = forgeVersionId,
                                    InstallForgeOptions.installer =
                                      (case found of Some f \<Rightarrow> ForgeVersion.installer f
                                       | None \<Rightarrow> None),
                                    InstallForgeOptions.side = sd\<rparr>
                        in await (call (InstallForge opts) (installForge sv opts))
                             (\<lambda>r. return_io (Some r))))
            | Some localForge \<Rightarrow>
                await (call (RefreshVersion (LocalVersionHeader.id localForge))
                         (refreshVersion sv (LocalVersionHeader.id localForge)))
                  (\<lambda>_. return_io (Some (LocalVersionHeader.id localForge)))))
        (return_io None))"

text \<open>
  Lines 57 to 68: the NeoForge branch. It is a statement of its own after the Forge
  branch and assigns the same variable; when \<open>neoForged\<close> is not requested the
  variable keeps the value \<open>forgeVersion\<close> it has.
\<close>

definition install_neoForged ::
  "services \<Rightarrow> LocalVersionHeader list \<Rightarrow> RuntimeVersions \<Rightarrow> string option \<Rightarrow> string option io" where
  "install_neoForged sv local runtime forgeVersion =
     (let minecraft = RuntimeVersions.minecraft runtime in
      if_truthy (RuntimeVersions.neoForged runtime)
        (\<lambda>neoForged.
           (case find (\<lambda>v. LocalVersionHeader.neoForged v = neoForged
                          \<and> LocalVersionHeader.minecraft v = minecraft) local of
              None \<Rightarrow>
                await (getCacheOrFetch (''/neoforged-versions/'' @ minecraft)
                         (map_sum (\<lambda>e. e) NeoForgedVersionList (getNeoForgedVersionList sv minecraft)))
                  (\<lambda>c. await (asNeoForgedVersionList c)
                     (\<lambda>versions.
                        let found = find (\<lambda>v. v = neoForged) versions;
                            i = (case found of Some f \<Rightarrow> f | None \<Rightarrow> neoForged)
                        in await (call (InstallNeoForged i minecraft) (installNeoForged sv i minecraft))
                             (\<lambda>r. return_io (Some r))))
            | Some localNeoForge \<Rightarrow>
                await (call (RefreshVersion (LocalVersionHeader.id localNeoForge))
                         (refreshVersion sv (LocalVersionHeader.id localNeoForge)))
                  (\<lambda>_. return_io (Some (LocalVersionHeader.id localNeoForge)))))
        (return_io forgeVersion))"

text \<open>Lines 87 to 117: Fabric, then Quilt, then LabyMod, then the base version itself.\<close>

definition install_other ::
  "services \<Rightarrow> LocalVersionHeader list \<Rightarrow> RuntimeVersions \<Rightarrow> string io" where
  "install_other sv local runtime =
     (let minecraft = RuntimeVersions.minecraft runtime in
      if_truthy (RuntimeVersions.fabricLoader runtime)
        (\<lambda>fabricLoader.
           (case find (\<lambda>v. LocalVersionHeader.fabric v = fabricLoader
                          \<and> LocalVersionHeader.minecraft v = minecraft) local of
              Some localFabric \<Rightarrow>
                await (call (RefreshVersion (LocalVersionHeader.id localFabric))
                         (refreshVersion sv (LocalVersionHeader.id localFabric)))
                  (\<lambda>_. return_io (LocalVersionHeader.id localFabric))
            | None \<Rightarrow>
                call (InstallFabric fabricLoader minecraft) (installFabric sv fabricLoader minecraft)))
        (if_truthy (RuntimeVersions.quiltLoader runtime)
           (\<lambda>quiltLoader.
              (case find (\<lambda>v. LocalVersionHeader.quilt v = quiltLoader
                             \<and> LocalVersionHeader.minecraft v = minecraft) local of
                 Some localQuilt \<Rightarrow>
                   await (call (RefreshVersion (LocalVersionHeader.id localQuilt))
                            (refreshVersion sv (LocalVersionHeader.id localQuilt)))
                     (\<lambda>_. return_io (LocalVersionHeader.id localQuilt))
               | None \<Rightarrow>
                   call (InstallQuilt quiltLoader minecraft) (installQuilt sv quiltLoader minecraft)))
           (if_truthy (RuntimeVersions.labyMod runtime)
              (\<lambda>labyMod.
                 (case find (\<lambda>v. LocalVersionHeader.labyMod v = labyMod
                                \<and> LocalVersionHeader.minecraft v = minecraft) local of
                    Some localLabyMod \<Rightarrow>
                      await (call (RefreshVersion (LocalVersionHeader.id localLabyMod))
                               (refreshVersion sv (LocalVersionHeader.id localLabyMod)))
                        (\<lambda>_. return_io (LocalVersionHeader.id localLabyMod))
                  | None \<Rightarrow>
                      await (getCacheOrFetch ''/labymod''
                               (map_sum (\<lambda>e. e) LabyModManifest (getLabyModManifest sv)))
                        (\<lambda>c. await (asLabyModManifest c)
                           (\<lambda>manifest.
                              call (InstallLabyModVersion manifest minecraft)
                                (installLabyModVersion sv manifest minecraft)))))
              (return_io minecraft))))"

text \<open>
  Lines 70 to 85: Optifine returns at once; otherwise a truthy \<open>forgeVersion\<close> is the
  result; otherwise the remaining loaders are tried.
\<close>

definition install_loader ::
  "services \<Rightarrow> LocalVersionHeader list \<Rightarrow> RuntimeVersions \<Rightarrow> string option \<Rightarrow> string io" where
  "install_loader sv local runtime forgeVersion =
     (let minecraft = RuntimeVersions.minecraft runtime in
      if_truthy (RuntimeVersions.optifine runtime)
        (\<lambda>optifine.
           let optifineVersion =
                 (if startsWith optifine minecraft then drop (length minecraft) optifine
                  else optifine)
           in (case find (\<lambda>v. LocalVersionHeader.minecraft v = minecraft
                             \<and> LocalVersionHeader.optifine v = optifineVersion
                             \<and> LocalVersionHeader.forge v = or_empty forgeVersion) local of
                 Some localOptifine \<Rightarrow>
                   await (call (RefreshVersion (LocalVersionHeader.id localOptifine))
                            (refreshVersion sv (LocalVersionHeader.id localOptifine)))
                     (\<lambda>_. return_io (LocalVersionHeader.id localOptifine))
               | None \<Rightarrow>
                   (case parseOptifineVersion sv optifineVersion of
                      (ty, pa) \<Rightarrow>
                        let opts = \<lparr>InstallOptifineOptions.type = ty,
                                    InstallOptifineOptions.patch = pa,
                                    InstallOptifineOptions.mcversion = minecraft,
                                    InstallOptifineOptions.inheritFrom = forgeVersion\<rparr>
                        in call (InstallOptifine opts) (installOptifine sv opts))))
        (if_truthy forgeVersion
           (\<lambda>fv. return_io fv)
           (install_other sv local runtime)))"

definition install ::
  "services \<Rightarrow> LocalVersionHeader list \<Rightarrow> RuntimeVersions \<Rightarrow> side \<Rightarrow> bool \<Rightarrow> string io" where
  "install sv local runtime sd jar =
     await (install_base sv local runtime sd jar)
       (\<lambda>_. await (install_forge sv local runtime sd)
          (\<lambda>forgeVersion. await (install_neoForged sv local runtime forgeVersion)
             (\<lambda>forgeVersion. install_loader sv local runtime forgeVersion)))"

text \<open>One call of \<open>install\<close>, started with a given cache: its result and what it did.\<close>

definition install_result ::
  "services \<Rightarrow> LocalVersionHeader list \<Rightarrow> (string \<rightharpoonup> cached) \<Rightarrow> RuntimeVersions \<Rightarrow> side \<Rightarrow> bool
     \<Rightarrow> failure + string" where
  "install_result sv local c runtime sd jar =
     fst (install sv local runtime sd jar \<lparr>cache = c, log = []\<rparr>)"

definition install_actions ::
  "services \<Rightarrow> LocalVersionHeader list \<Rightarrow> (string \<rightharpoonup> cached) \<Rightarrow> RuntimeVersions \<Rightarrow> side \<Rightarrow> bool
     \<Rightarrow> action list" where
  "install_actions sv local c runtime sd jar =
     log (snd (install sv local runtime sd jar \<lparr>cache = c, log = []\<rparr>))"


section \<open>Process launch supervisor\<close>

subsection \<open>Data\<close>

text \<open>
  The user profile comes from a schema of the runtime API that is not part of the
  sources; the service reads \<open>selectedProfile\<close> and \<open>profiles\<close>. \<open>profiles\<close> is an
  object indexed by profile id; a missing key reads as undefined.
\<close>

record GameProfile =
  id :: string
  name :: string

record UserProfile =
  selectedProfile :: string
  profiles :: "string \<rightharpoonup> GameProfile"

record ServerTarget =
  host :: string
  port :: "nat option"

record YggdrasilAgent =
  jar :: string
  server :: string
  prefetched :: "string option"

text \<open>
  \<open>LaunchOptions\<close>, the request of the caller. The declared type makes \<open>user\<close>
  mandatory, but the entry points test it, so the model lets it be absent. The memory
  bounds are numbers that are only handed on.
\<close>

record LaunchOptions =
  version :: string
  gameDirectory :: string
  user :: "UserProfile option"
  java :: string
  server :: "ServerTarget option"
  yggdrasilAgent :: "YggdrasilAgent option"
  hideLauncher :: "bool option"
  showLog :: "bool option"
  launcherName :: "string option"
  launcherBrand :: "string option"
  maxMemory :: "int option"
  minMemory :: "int option"
  skipAssetsCheck :: "bool option"
  vmOptions :: "string list option"
  mcOptions :: "string list option"

text \<open>
  \<open>ResolvedVersion\<close> is a type of the core library; the service reads its \<open>id\<close> and
  its \<open>minecraftVersion\<close> and hands the rest on.
\<close>

record ResolvedVersion =
  id :: string
  minecraftVersion :: string

datatype LaunchPrecheck = checkNatives | linkAssets

record ServerOption =
  ip :: string
  port :: "nat option"

text \<open>
  \<open>LaunchOption\<close>, the configuration of the core library that \<open>#generateOptions\<close>
  builds. \<open>detached\<close> and \<open>cwd\<close> are the two fields of \<open>extraExecOption\<close>;
  \<open>properties\<close> is always the empty object and is left out.
\<close>

record LaunchOption =
  gameProfile :: "GameProfile option"
  accessToken :: "string option"
  gamePath :: string
  resourcePath :: string
  javaPath :: string
  minMemory :: "int option"
  maxMemory :: "int option"
  version :: ResolvedVersion
  detached :: bool
  cwd :: string
  extraJVMArgs :: "string list option"
  extraMCArgs :: "string list option"
  launcherBrand :: string
  launcherName :: string
  yggdrasilAgent :: "YggdrasilAgent option"
  prechecks :: "LaunchPrecheck list"
  server :: "ServerOption option"

text \<open>The closed set of launch exceptions, each with the fields the source gives it.\<close>

datatype LaunchExceptions =
  launchNoVersionInstalled LaunchOptions
| launchGeneralException string
| launchNoProperJava string
| launchInvalidJavaPath string
| launchJavaNoPermission string
| launchUserStatusRefreshFailed string

text \<open>
  What a \<open>throw\<close> or a rejected promise carries: a \<open>LaunchException\<close>; any other
  error object, of which the model keeps the message; or one of the two values that
  have no property to read, \<open>null\<close> and \<open>undefined\<close>.
\<close>

datatype thrown =
  LaunchException LaunchExceptions
| Error string
| ThrownNull
| ThrownUndefined

text \<open>
  Modelled from the spec: the enumeration \<open>JavaValidation\<close> of \<open>../entities/java\<close> is
  not part of the sources. The source names its members \<open>NotExisted\<close> (the path does
  not exist) and \<open>NoPermission\<close> (it exists and is not executable); \<open>Okay\<close> is the
  remaining answer.
\<close>

datatype JavaValidation = Okay | NotExisted | NoPermission

record ChildProcess =
  pid :: "nat option"

text \<open>\<open>this.app.server.address()\<close>: null, a pipe name, or an address with a port.\<close>

datatype address = PipeName string | AddressInfo nat

text \<open>
  The collaborators of the launch service and what each answers. \<open>AUTHORITY_DEV\<close> is
  a constant of the runtime API whose value is not in the sources. \<open>jarRejectsFirst\<close>
  tells which of the two concurrent diagnoses is first to reject when both do.
\<close>

record launch_services =
  getPath :: string
  AUTHORITY_DEV :: string
  Version_parse :: "string \<Rightarrow> string \<Rightarrow> thrown + ResolvedVersion"
  diagnoseJar :: "ResolvedVersion \<Rightarrow> string \<Rightarrow> thrown + bool"
  installMinecraftJar :: "ResolvedVersion \<Rightarrow> thrown + unit"
  diagnoseLibraries :: "ResolvedVersion \<Rightarrow> string \<Rightarrow> thrown + string list"
  installLibraries :: "string list \<Rightarrow> thrown + unit"
  jarRejectsFirst :: bool
  userTokenStorage_get :: "UserProfile \<Rightarrow> thrown + string option"
  server_address :: "address option"
  server_listening :: bool
  validateJavaPath :: "string \<Rightarrow> thrown + JavaValidation"
  core_generateArguments :: "LaunchOption \<Rightarrow> thrown + string list"
  core_launch :: "LaunchOption \<Rightarrow> thrown + ChildProcess"

text \<open>
  The events the service emits. In the exit event, \<open>launched\<close> stands for the fields
  of the launch options, which the source spreads into the event.
\<close>

record ExitEvent =
  pid :: "nat option"
  launched :: LaunchOptions
  code :: "int option"
  signal :: "string option"
  crashReport :: "string option"
  duration :: int
  crashReportLocation :: string
  errorLog :: string

datatype event =
  MinecraftStart "nat option" string LaunchOptions
| MinecraftStderr "nat option" string
| MinecraftStdout "nat option" string
| MinecraftExit ExitEvent
| MinecraftWindowReady "nat option" LaunchOptions
| ErrorEvent LaunchExceptions

text \<open>
  The state of the service: the registry of running processes, indexed by
  \<open>process.pid\<close> (which may be undefined), and the events emitted so far.
\<close>

record LaunchService =
  processes :: "nat option \<rightharpoonup> ChildProcess"
  emitted :: "event list"

subsection \<open>JavaScript string operations\<close>

text \<open>
  Strings are sequences of code units; the model has the code units below 256.
\<close>

function decimal :: "nat \<Rightarrow> string" where
  "decimal n = (if n < 10 then [char_of (48 + n)]
                else decimal (n div 10) @ [char_of (48 + n mod 10)])"
  by pat_completeness auto
termination
  by (relation "measure (\<lambda>n. n)") auto

text \<open>\<open>s.indexOf(c)\<close> for a single character: the first position, or \<open>-1\<close>.\<close>

definition indexOf :: "string \<Rightarrow> char \<Rightarrow> int" where
  "indexOf s c = (if c \<in> set s then int (length (takeWhile (\<lambda>x. x \<noteq> c) s)) else - 1)"

text \<open>\<open>s.lastIndexOf(p)\<close>: the last position at which \<open>p\<close> occurs in \<open>s\<close>, or \<open>-1\<close>.\<close>

definition lastIndexOf :: "string \<Rightarrow> string \<Rightarrow> int" where
  "lastIndexOf s p =
     (case find (\<lambda>i. startsWith (drop i s) p) (rev [0 ..< Suc (length s - length p)]) of
        None \<Rightarrow> - 1
      | Some i \<Rightarrow> int i)"

text \<open>
  \<open>s.substring(start, end)\<close>: both indices are clamped to the string and exchanged
  when \<open>start\<close> is the larger.
\<close>

definition clamp_index :: "string \<Rightarrow> int \<Rightarrow> nat" where
  "clamp_index s i = (if i < 0 then 0 else min (nat i) (length s))"

definition substring :: "string \<Rightarrow> int \<Rightarrow> int \<Rightarrow> string" where
  "substring s start end' =
     (let a = clamp_index s start; b = clamp_index s end'
      in take (max a b - min a b) (drop (min a b) s))"

text \<open>\<open>s.substring(start)\<close>\<close>

definition substring_from :: "string \<Rightarrow> int \<Rightarrow> string" where
  "substring_from s start = drop (clamp_index s start) s"

text \<open>
  \<open>s.replace(p, r)\<close> with a string pattern: only the first occurrence is replaced.
\<close>

fun replace :: "string \<Rightarrow> string \<Rightarrow> string \<Rightarrow> string" where
  "replace [] p r = (if p = [] then r else [])"
| "replace (c # cs) p r =
     (if startsWith (c # cs) p then r @ drop (length p) (c # cs) else c # replace cs p r)"

text \<open>
  \<open>s.trim()\<close> removes white space and line terminators at both ends: tab, line feed,
  vertical tab, form feed, carriage return, space and no-break space.
\<close>

definition is_space :: "char \<Rightarrow> bool" where
  "is_space c = (c \<in> {CHR 0x09, CHR 0x0A, CHR 0x0B, CHR 0x0C, CHR 0x0D, CHR 0x20, CHR 0xA0})"

definition trim :: "string \<Rightarrow> string" where
  "trim s = rev (dropWhile is_space (rev (dropWhile is_space s)))"

text \<open>\<open>s.split(sep)\<close> for a separator that is not empty.\<close>

fun split_acc :: "string \<Rightarrow> string \<Rightarrow> string \<Rightarrow> string list" where
  "split_acc sep acc [] = [rev acc]"
| "split_acc sep acc (c # cs) =
     (if startsWith (c # cs) sep \<and> sep \<noteq> []
      then rev acc # split_acc sep [] (drop (length sep - 1) cs)
      else split_acc sep (c # acc) cs)"

definition split :: "string \<Rightarrow> string \<Rightarrow> string list" where
  "split s sep = split_acc sep [] s"

text \<open>\<open>xs.join(sep)\<close>\<close>

fun join :: "string list \<Rightarrow> string \<Rightarrow> string" where
  "join [] sep = []"
| "join [x] sep = x"
| "join (x # y # ys) sep = x @ sep @ join (y # ys) sep"


subsection \<open>\<open>#generateOptions\<close>\<close>

text \<open>
  The local function \<open>getAddress\<close>: an empty pipe name is falsy, like null.
\<close>

definition getAddress :: "launch_services \<Rightarrow> thrown + string" where
  "getAddress sv =
     (let unexpected = Inl (Error (''Unexpected state. The OfflineYggdrasilServer does not initialized? Listening: ''
                             @ (if server_listening sv then ''true'' else ''false'')))
      in case server_address sv of
           None \<Rightarrow> unexpected
         | Some (PipeName address) \<Rightarrow>
             if address = [] then unexpected
             else Inr (''http://localhost''
                       @ substring_from address (indexOf address (CHR '':'')) @ ''/yggdrasil'')
         | Some (AddressInfo port') \<Rightarrow>
             Inr (''http://localhost:'' @ decimal port' @ ''/yggdrasil''))"

text \<open>
  Lines 29 to 87. Reading \<open>user.profiles\<close> of an absent user is a type error. The
  root of a \<open>MinecraftFolder\<close> is the path it was made from.
\<close>

definition generateOptions ::
  "launch_services \<Rightarrow> LaunchOptions \<Rightarrow> ResolvedVersion \<Rightarrow> string option \<Rightarrow> thrown + LaunchOption" where
  "generateOptions sv options version' accessToken' =
     (case LaunchOptions.user options of
        None \<Rightarrow>
          Inl (Error (''Cannot read properties of undefined (reading '' @ [CHR 0x27]
                      @ ''profiles'' @ [CHR 0x27] @ '')''))
      | Some user' \<Rightarrow>
          let gameProfile = profiles user' (selectedProfile user');
              javaPath = java options;
              yggdrasilAgent = LaunchOptions.yggdrasilAgent options;
              minecraftFolder = gameDirectory options;
              minMemory = LaunchOptions.maxMemory options;
              maxMemory = LaunchOptions.minMemory options;
              prechecks = [checkNatives, linkAssets];
              launchOptions =
                \<lparr>gameProfile = gameProfile,
                 accessToken = accessToken',
                 gamePath = minecraftFolder,
                 resourcePath = getPath sv,
                 javaPath = javaPath,
                 LaunchOption.minMemory = minMemory,
                 LaunchOption.maxMemory = maxMemory,
                 LaunchOption.version = version',
                 detached = True,
                 cwd = minecraftFolder,
                 extraJVMArgs = map_option (filter (\<lambda>v. v \<noteq> [])) (vmOptions options),
                 extraMCArgs = map_option (filter (\<lambda>v. v \<noteq> [])) (mcOptions options),
                 LaunchOption.launcherBrand =
                   (case LaunchOptions.launcherBrand options of None \<Rightarrow> [] | Some b \<Rightarrow> b),
                 LaunchOption.launcherName =
                   (case LaunchOptions.launcherName options of None \<Rightarrow> ''XMCL'' | Some n \<Rightarrow> n),
                 LaunchOption.yggdrasilAgent = yggdrasilAgent,
                 prechecks = prechecks,
                 LaunchOption.server = None\<rparr>
          in (case LaunchOptions.server options of
                None \<Rightarrow> Inr launchOptions
              | Some target \<Rightarrow>
                  (case (if host target = AUTHORITY_DEV sv then getAddress sv
                         else Inr (host target)) of
                     Inl e \<Rightarrow> Inl e
                   | Inr address \<Rightarrow>
                       Inr (launchOptions
                             \<lparr>LaunchOption.server :=
                                Some \<lparr>ip = address, ServerOption.port = ServerTarget.port target\<rparr>\<rparr>))))"

subsection \<open>The entry points\<close>

text \<open>
  Lines 94 to 104 and 139 to 149: the override version is parsed when it is not
  empty; a failure to parse is logged and leaves \<open>version\<close> undefined.
\<close>

definition resolve_version :: "launch_services \<Rightarrow> LaunchOptions \<Rightarrow> ResolvedVersion option" where
  "resolve_version sv options =
     (if LaunchOptions.version options \<noteq> [] then
        (case Version_parse sv (getPath sv) (LaunchOptions.version options) of
           Inl e \<Rightarrow> None
         | Inr v \<Rightarrow> Some v)
      else None)"

text \<open>
  Lines 117 and 181: \<open>user ? await this.userTokenStorage.get(user).catch(() => undefined)
  : undefined\<close>
\<close>

definition get_accessToken :: "launch_services \<Rightarrow> UserProfile option \<Rightarrow> string option" where
  "get_accessToken sv user' =
     (case user' of
        None \<Rightarrow> None
      | Some u \<Rightarrow> (case userTokenStorage_get sv u of Inl e \<Rightarrow> None | Inr t \<Rightarrow> t))"

text \<open>
  The \<open>catch\<close> clause that closes both entry points (lines 122 to 127 and 279 to 284):
  a \<open>LaunchException\<close> is thrown again as it is, and any other error object inside a
  \<open>launchGeneralException\<close> built from its \<open>message\<close>. Reading \<open>message\<close> of null or
  of undefined is itself a type error, which leaves the clause as it is.
\<close>

definition rethrow :: "thrown \<Rightarrow> thrown" where
  "rethrow e =
     (case e of
        LaunchException x \<Rightarrow> LaunchException x
      | Error message \<Rightarrow> LaunchException (launchGeneralException message)
      | ThrownNull \<Rightarrow>
          Error (''Cannot read properties of null (reading '' @ [CHR 0x27] @ ''message''
                 @ [CHR 0x27] @ '')'')
      | ThrownUndefined \<Rightarrow>
          Error (''Cannot read properties of undefined (reading '' @ [CHR 0x27] @ ''message''
                 @ [CHR 0x27] @ '')''))"

text \<open>Lines 90 to 121, the \<open>try\<close> block of \<open>generateArguments\<close>.\<close>

definition generateArguments_try :: "launch_services \<Rightarrow> LaunchOptions \<Rightarrow> thrown + string list" where
  "generateArguments_try sv options =
     (let user = LaunchOptions.user options;
          javaPath = java options
      in case resolve_version sv options of
           None \<Rightarrow> Inl (LaunchException (launchNoVersionInstalled options))
         | Some version' \<Rightarrow>
             if javaPath = [] then Inl (LaunchException (launchNoProperJava []))
             else
               let accessToken = get_accessToken sv user
               in (case generateOptions sv options version' accessToken of
                     Inl e \<Rightarrow> Inl e
                   | Inr opts \<Rightarrow> core_generateArguments sv opts))"

definition generateArguments :: "launch_services \<Rightarrow> LaunchOptions \<Rightarrow> thrown + string list" where
  "generateArguments sv options =
     (case generateArguments_try sv options of
        Inl e \<Rightarrow> Inl (rethrow e)
      | Inr args \<Rightarrow> Inr args)"

text \<open>
  Lines 158 to 173: the two diagnoses run together and \<open>Promise.all\<close> waits for both;
  it rejects with the rejection that comes first.
\<close>

definition check_assets :: "launch_services \<Rightarrow> ResolvedVersion \<Rightarrow> thrown + unit" where
  "check_assets sv version' =
     (let resourceFolder = getPath sv;
          jar = (case diagnoseJar sv version' resourceFolder of
                   Inl e \<Rightarrow> Inl e
                 | Inr issue \<Rightarrow> if issue then installMinecraftJar sv version' else Inr ());
          libraries = (case diagnoseLibraries sv version' resourceFolder of
                         Inl e \<Rightarrow> Inl e
                       | Inr libs \<Rightarrow> if length libs > 0 then installLibraries sv libs else Inr ())
      in case (jar, libraries) of
           (Inl e1, Inl e2) \<Rightarrow> Inl (if jarRejectsFirst sv then e1 else e2)
         | (Inl e1, Inr _) \<Rightarrow> Inl e1
         | (Inr _, Inl e2) \<Rightarrow> Inl e2
         | (Inr _, Inr _) \<Rightarrow> Inr ())"

text \<open>
  Lines 184 to 194: the validation of the java path. Both typed exceptions are thrown
  inside the \<open>try\<close> block whose \<open>catch\<close> clause throws \<open>launchNoProperJava\<close>.
\<close>

definition validate_java :: "launch_services \<Rightarrow> string \<Rightarrow> thrown + unit" where
  "validate_java sv javaPath' =
     (case (case validateJavaPath sv javaPath' of
              Inl e \<Rightarrow> Inl e
            | Inr result \<Rightarrow>
                if result = NotExisted then
                  Inl (LaunchException (launchInvalidJavaPath javaPath'))
                else if result = NoPermission then
                  Inl (LaunchException (launchJavaNoPermission javaPath'))
                else Inr ()) of
        Inl e \<Rightarrow> Inl (LaunchException (launchNoProperJava javaPath'))
      | Inr u \<Rightarrow> Inr u)"

text \<open>
  Lines 136 to 201: everything \<open>launch\<close> does before it spawns the process; the value
  is the resolved version and the configuration handed to the spawner.
\<close>

definition launch_prepare ::
  "launch_services \<Rightarrow> LaunchOptions \<Rightarrow> thrown + ResolvedVersion \<times> LaunchOption" where
  "launch_prepare sv options =
     (let user = LaunchOptions.user options;
          javaPath = java options
      in case resolve_version sv options of
           None \<Rightarrow> Inl (LaunchException (launchNoVersionInstalled options))
         | Some version' \<Rightarrow>
             (case (if skipAssetsCheck options \<noteq> Some True then check_assets sv version'
                    else Inr ()) of
                Inl e \<Rightarrow> Inl e
              | Inr _ \<Rightarrow>
                  if javaPath = [] then Inl (LaunchException (launchNoProperJava []))
                  else
                    let accessToken = get_accessToken sv user
                    in (case generateOptions sv options version' accessToken of
                          Inl e \<Rightarrow> Inl e
                        | Inr launchOptions \<Rightarrow>
                            (case validate_java sv javaPath of
                               Inl e \<Rightarrow> Inl e
                             | Inr _ \<Rightarrow> Inr (version', launchOptions)))))"

text \<open>
  Lines 135 to 278, the \<open>try\<close> block of \<open>launch\<close>: the process is spawned, registered
  under its pid, announced, and its pid is the value returned. The handlers installed
  on the process and its watcher are the subject of the next subsection.
\<close>

definition launch_try ::
  "launch_services \<Rightarrow> LaunchOptions \<Rightarrow> LaunchService \<Rightarrow> (thrown + nat option) \<times> LaunchService" where
  "launch_try sv options s =
     (case launch_prepare sv options of
        Inl e \<Rightarrow> (Inl e, s)
      | Inr (version', launchOptions) \<Rightarrow>
          (case core_launch sv launchOptions of
             Inl e \<Rightarrow> (Inl e, s)
           | Inr process \<Rightarrow>
               (Inr (ChildProcess.pid process),
                s\<lparr>processes := (processes s)(ChildProcess.pid process \<mapsto> process),
                  emitted := emitted s @
                    [MinecraftStart (ChildProcess.pid process) (minecraftVersion version') options]\<rparr>)))"

definition launch ::
  "launch_services \<Rightarrow> LaunchOptions \<Rightarrow> LaunchService \<Rightarrow> (thrown + nat option) \<times> LaunchService" where
  "launch sv options s =
     (case launch_try sv options s of
        (Inl e, s') \<Rightarrow> (Inl (rethrow e), s')
      | (Inr p, s') \<Rightarrow> (Inr p, s'))"

text \<open>Lines 287 to 293; the signal sent to the process is outside the model.\<close>

definition kill :: "nat \<Rightarrow> LaunchService \<Rightarrow> LaunchService" where
  "kill p s = s\<lparr>processes := (processes s)(Some p := None)\<rparr>"


subsection \<open>Supervising the running process\<close>

text \<open>
  After the spawn, \<open>launch\<close> installs handlers on the streams of the process and on
  its watcher. They run one at a time on the event loop, each to completion. A call of
  \<open>processError\<close> is a promise: it is pending while the encoding worker decodes the
  chunk, and when the worker answers, the rest of \<open>processError\<close> runs in one piece.
\<close>

datatype promise = Pending "thrown + string" | Fulfilled string | Rejected thrown

fun is_Fulfilled :: "promise \<Rightarrow> bool" where
  "is_Fulfilled (Fulfilled t) = True"
| "is_Fulfilled p = False"

fun is_Rejected :: "promise \<Rightarrow> bool" where
  "is_Rejected (Rejected e) = True"
| "is_Rejected p = False"

text \<open>
  The variables the handlers close over: the process, the options, \<open>startTime\<close>,
  \<open>errorLogs\<close>, \<open>errPromises\<close>; the line separator \<open>EOL\<close> of the platform; the
  calls of \<open>Promise.all\<close> that have not settled yet, each with the exit event it will
  emit and the number of promises it was given; and the state of the service.
\<close>

record supervision =
  child :: ChildProcess
  request :: LaunchOptions
  startTime :: int
  EOL :: string
  errorLogs :: "string list"
  errPromises :: "promise list"
  awaiting :: "(ExitEvent \<times> nat) list"
  service :: LaunchService

definition supervise ::
  "ChildProcess \<Rightarrow> LaunchOptions \<Rightarrow> int \<Rightarrow> string \<Rightarrow> LaunchService \<Rightarrow> supervision" where
  "supervise p options t eol s =
     \<lparr>child = p, request = options, startTime = t, EOL = eol,
      errorLogs = [], errPromises = [], awaiting = [], service = s\<rparr>"

definition emit :: "event \<Rightarrow> supervision \<Rightarrow> supervision" where
  "emit ev r = r\<lparr>service := (service r)\<lparr>emitted := emitted (service r) @ [ev]\<rparr>\<rparr>"

text \<open>
  Lines 257 to 259 and 268: what the exit event carries as \<open>crashReportLocation\<close>.
\<close>

definition exit_crashReportLocation :: "string option \<Rightarrow> string" where
  "exit_crashReportLocation location =
     (let location' =
            if_truthy location
              (\<lambda>l. Some (substring l 0 (lastIndexOf l ''.txt'' + 4)))
              location
      in if_truthy location'
           (\<lambda>l. trim (replace l [CHR 0x0D, CHR 0x0A] []))
           [])"

text \<open>
  \<open>Promise.all\<close> over the first \<open>n\<close> promises settles as soon as one of them is
  rejected, or when all of them are fulfilled.
\<close>

definition settled :: "promise list \<Rightarrow> nat \<Rightarrow> bool" where
  "settled ps n = (list_ex is_Rejected (take n ps) \<or> list_all is_Fulfilled (take n ps))"

text \<open>
  Lines 260 to 271: when the \<open>Promise.all\<close> of an exit has settled, the \<open>finally\<close>
  callback emits the exit event, with the error log as it is at that moment.
\<close>

definition settle :: "supervision \<Rightarrow> supervision" where
  "settle r =
     r\<lparr>awaiting := filter (\<lambda>(ev, n). \<not> settled (errPromises r) n) (awaiting r),
       service := (service r)
         \<lparr>emitted := emitted (service r) @
            map (\<lambda>(ev, n). MinecraftExit (ev\<lparr>errorLog := join (errorLogs r) [CHR 0x0A]\<rparr>))
              (filter (\<lambda>(ev, n). settled (errPromises r) n) (awaiting r))\<rparr>\<rparr>"

text \<open>Lines 237 to 239: a chunk of stderr arrives; \<open>processError\<close> starts.\<close>

definition stderr_data :: "thrown + string \<Rightarrow> supervision \<Rightarrow> supervision" where
  "stderr_data decoding r = r\<lparr>errPromises := errPromises r @ [Pending decoding]\<rparr>"

text \<open>
  Lines 222 to 229: the worker has answered for the \<open>i\<close>-th chunk. On success the text
  is emitted, split into lines and appended to \<open>errorLogs\<close>; on failure the promise is
  rejected.
\<close>

definition stderr_decoded :: "nat \<Rightarrow> supervision \<Rightarrow> supervision" where
  "stderr_decoded i r =
     (if i < length (errPromises r) then
        (case errPromises r ! i of
           Pending (Inr result) \<Rightarrow>
             settle ((emit (MinecraftStderr (ChildProcess.pid (child r)) result) r)
                       \<lparr>errorLogs := errorLogs r @ split result (EOL r),
                        errPromises := (errPromises r)[i := Fulfilled result]\<rparr>)
         | Pending (Inl e) \<Rightarrow> settle (r\<lparr>errPromises := (errPromises r)[i := Rejected e]\<rparr>)
         | _ \<Rightarrow> r)
      else r)"

text \<open>
  Lines 230 to 234 and 240 to 242: a chunk of stdout has been decoded, or not.
\<close>

definition stdout_decoded :: "thrown + string \<Rightarrow> supervision \<Rightarrow> supervision" where
  "stdout_decoded decoding r =
     (case decoding of
        Inl e \<Rightarrow> r
      | Inr result \<Rightarrow> emit (MinecraftStdout (ChildProcess.pid (child r)) result) r)"

text \<open>
  Lines 246 to 272: the watcher reports the end of the process. The registry entry is
  deleted at once; the exit event waits for the promises of the chunks received so far.
\<close>

definition minecraft_exit ::
  "int option \<Rightarrow> string option \<Rightarrow> string option \<Rightarrow> string option \<Rightarrow> int
     \<Rightarrow> supervision \<Rightarrow> supervision" where
  "minecraft_exit code' signal' crashReport' crashReportLocation' endTime r =
     (let playTime = endTime - startTime r;
          ev = \<lparr>ExitEvent.pid = ChildProcess.pid (child r),
                launched = request r,
                code = code',
                signal = signal',
                crashReport = crashReport',
                duration = playTime,
                crashReportLocation = exit_crashReportLocation crashReportLocation',
                errorLog = []\<rparr>
      in settle
           (r\<lparr>awaiting := awaiting r @ [(ev, length (errPromises r))],
              service := (service r)
                \<lparr>processes := (processes (service r))(ChildProcess.pid (child r) := None)\<rparr>\<rparr>))"

text \<open>What the event loop delivers to the handlers of one launch.\<close>

datatype delivery =
  StderrData "thrown + string"
| StderrDecoded nat
| StdoutDecoded "thrown + string"
| WatcherError string
| WatcherExit "int option" "string option" "string option" "string option" int
| WindowReady

fun handle :: "delivery \<Rightarrow> supervision \<Rightarrow> supervision" where
  "handle (StderrData decoding) r = stderr_data decoding r"
| "handle (StderrDecoded i) r = stderr_decoded i r"
| "handle (StdoutDecoded decoding) r = stdout_decoded decoding r"
| "handle (WatcherError err) r = emit (ErrorEvent (launchGeneralException err)) r"
| "handle (WatcherExit c sg cr crl t) r = minecraft_exit c sg cr crl t r"
| "handle WindowReady r =
     emit (MinecraftWindowReady (ChildProcess.pid (child r)) (request r)) r"

fun run :: "delivery list \<Rightarrow> supervision \<Rightarrow> supervision" where
  "run [] r = r"
| "run (d # ds) r = run ds (handle d r)"

fun is_exit :: "delivery \<Rightarrow> bool" where
  "is_exit (WatcherExit c sg cr crl t) = True"
| "is_exit d = False"


section \<open>Observations and sample inputs\<close>

text \<open>Kinds of action.\<close>

fun is_installer :: "action \<Rightarrow> bool" where
  "is_installer (Fetch k) = False"
| "is_installer (RefreshVersion i) = False"
| "is_installer a = True"

fun is_fetch :: "action \<Rightarrow> bool" where
  "is_fetch (Fetch k) = True"
| "is_fetch a = False"

fun is_InstallQuilt :: "action \<Rightarrow> bool" where
  "is_InstallQuilt (InstallQuilt v m) = True"
| "is_InstallQuilt a = False"


text \<open>
  Sample services in which every call succeeds: the catalogs know Minecraft 1.20.1,
  Forge 47.2.0 and NeoForge 47.1.99, and each installer names what it installed.
\<close>

definition sample_services :: services where
  "sample_services =
     \<lparr>getMinecraftVersionList =
        Inr [\<lparr>MinecraftVersion.id = ''1.20.1'', url = ''https://meta/1.20.1.json''\<rparr>],
      getForgeVersionList =
        (\<lambda>m. Inr [\<lparr>ForgeVersion.version = ''47.2.0'',
                     ForgeVersion.installer = Some ''installer.jar''\<rparr>]),
      getNeoForgedVersionList = (\<lambda>m. Inr [''47.1.99'']),
      getLabyModManifest = Inr ''manifest'',
      installMinecraft = (\<lambda>m s. Inr ()),
      installForge =
        (\<lambda>opts. Inr (InstallForgeOptions.mcversion opts @ ''-forge-''
                       @ InstallForgeOptions.version opts)),
      installNeoForged = (\<lambda>v m. Inr (m @ ''-neoforged-'' @ v)),
      installOptifine = (\<lambda>opts. Inr (InstallOptifineOptions.mcversion opts @ ''-Optifine'')),
      installFabric = (\<lambda>l m. Inr (m @ ''-fabric'' @ l)),
      installQuilt = (\<lambda>v m. Inr (m @ ''-quilt'' @ v)),
      installLabyModVersion = (\<lambda>mf m. Inr (m @ ''-labymod'')),
      refreshVersion = (\<lambda>i. Inr ()),
      parseOptifineVersion =
        (\<lambda>s. (rev (drop 1 (dropWhile (\<lambda>ch. ch \<noteq> CHR ''_'') (rev s))),
              rev (takeWhile (\<lambda>ch. ch \<noteq> CHR ''_'') (rev s))))\<rparr>"

text \<open>A request for a base version alone, and a local header of a base version.\<close>

definition plain_request :: "string \<Rightarrow> RuntimeVersions" where
  "plain_request m =
     \<lparr>RuntimeVersions.minecraft = m, RuntimeVersions.forge = None,
      RuntimeVersions.neoForged = None, fabricLoader = None, quiltLoader = None,
      RuntimeVersions.optifine = None, RuntimeVersions.labyMod = None\<rparr>"

definition plain_header :: "string \<Rightarrow> string \<Rightarrow> LocalVersionHeader" where
  "plain_header i m =
     \<lparr>LocalVersionHeader.id = i, LocalVersionHeader.minecraft = m,
      LocalVersionHeader.forge = [], LocalVersionHeader.neoForged = [], fabric = [], quilt = [],
      LocalVersionHeader.optifine = [], LocalVersionHeader.labyMod = []\<rparr>"

definition fabric_quilt_request :: RuntimeVersions where
  "fabric_quilt_request =
     (plain_request ''1.20.1'')\<lparr>fabricLoader := Some ''0.15.0'', quiltLoader := Some ''0.20.0''\<rparr>"

definition forge_request :: RuntimeVersions where
  "forge_request = (plain_request ''1.20.1'')\<lparr>RuntimeVersions.forge := Some ''47.2.0''\<rparr>"

definition forge_neoForged_request :: RuntimeVersions where
  "forge_neoForged_request =
     (plain_request ''1.20.1'')\<lparr>RuntimeVersions.forge := Some ''47.2.0'',
                                RuntimeVersions.neoForged := Some ''47.1.99''\<rparr>"

definition forge_neoForged_optifine_request :: RuntimeVersions where
  "forge_neoForged_optifine_request =
     (plain_request ''1.20.1'')\<lparr>RuntimeVersions.forge := Some ''47.2.0'',
                                RuntimeVersions.neoForged := Some ''47.1.99'',
                                RuntimeVersions.optifine := Some ''1.20.1_HD_U_I6''\<rparr>"

text \<open>Local headers for Minecraft 1.20.1 and for Forge 47.2.0 on it.\<close>

definition forge_header :: LocalVersionHeader where
  "forge_header =
     (plain_header ''1.20.1-forge-47.2.0'' ''1.20.1'')\<lparr>LocalVersionHeader.forge := ''47.2.0''\<rparr>"

definition forge_local_headers :: "LocalVersionHeader list" where
  "forge_local_headers = [plain_header ''1.20.1'' ''1.20.1'', forge_header]"

text \<open>
  Sample launch options and launch services in which every call succeeds. The sample
  argument generator writes the two memory bounds of the configuration it is given.
\<close>

definition memory_argument :: "string \<Rightarrow> int option \<Rightarrow> string" where
  "memory_argument flag m = (case m of None \<Rightarrow> [] | Some n \<Rightarrow> flag @ decimal (nat n))"

definition sample_user :: UserProfile where
  "sample_user =
     \<lparr>selectedProfile = ''p1'',
      profiles = [''p1'' \<mapsto> \<lparr>GameProfile.id = ''p1'', name = ''Steve''\<rparr>]\<rparr>"

definition sample_options :: LaunchOptions where
  "sample_options =
     \<lparr>LaunchOptions.version = ''1.20.1'',
      gameDirectory = ''/home/steve/.minecraft'',
      user = Some sample_user,
      java = ''/usr/bin/java'',
      LaunchOptions.server = None,
      LaunchOptions.yggdrasilAgent = None,
      hideLauncher = None,
      showLog = None,
      LaunchOptions.launcherName = None,
      LaunchOptions.launcherBrand = None,
      LaunchOptions.maxMemory = Some 4096,
      LaunchOptions.minMemory = Some 1024,
      skipAssetsCheck = None,
      vmOptions = None,
      mcOptions = None\<rparr>"

definition sample_launch_services :: launch_services where
  "sample_launch_services =
     \<lparr>getPath = ''/home/steve/.xmcl'',
      AUTHORITY_DEV = ''dev'',
      Version_parse = (\<lambda>root v. Inr \<lparr>ResolvedVersion.id = v, minecraftVersion = v\<rparr>),
      diagnoseJar = (\<lambda>v root. Inr False),
      installMinecraftJar = (\<lambda>v. Inr ()),
      diagnoseLibraries = (\<lambda>v root. Inr []),
      installLibraries = (\<lambda>libs. Inr ()),
      jarRejectsFirst = True,
      userTokenStorage_get = (\<lambda>u. Inr (Some ''token'')),
      server_address = Some (AddressInfo 25565),
      server_listening = True,
      validateJavaPath = (\<lambda>p. Inr Okay),
      core_generateArguments =
        (\<lambda>opts. Inr [memory_argument ''-Xms'' (LaunchOption.minMemory opts),
                     memory_argument ''-Xmx'' (LaunchOption.maxMemory opts)]),
      core_launch = (\<lambda>opts. Inr \<lparr>ChildProcess.pid = Some 4242\<rparr>)\<rparr>"

definition idle :: LaunchService where
  "idle = \<lparr>processes = Map.empty, emitted = []\<rparr>"



text \<open>
  A process that has just been spawned with the sample options on a platform whose
  line separator is the line feed, and two sequences of deliveries.
\<close>

definition sample_supervision :: supervision where
  "sample_supervision =
     supervise \<lparr>ChildProcess.pid = Some 4242\<rparr> sample_options 0 [CHR 0x0A] idle"

definition sample_exit_event :: "string \<Rightarrow> ExitEvent" where
  "sample_exit_event lg =
     \<lparr>ExitEvent.pid = Some 4242, launched = sample_options, code = Some 1, signal = None,
      crashReport = None, duration = 10, crashReportLocation = [], errorLog = lg\<rparr>"

definition failing_deliveries :: "delivery list" where
  "failing_deliveries =
     [StderrData (Inr ''first''),
      StderrData (Inl (Error ''decode'')),
      WatcherExit (Some 1) None None None 10,
      StderrDecoded 1]"

definition late_deliveries :: "delivery list" where
  "late_deliveries =
     [StderrData (Inr (''first'' @ [CHR 0x0A] @ ''second'')),
      StderrData (Inr ''third'')]
     @ WatcherExit (Some 1) None None None 10
     # [StderrDecoded 1, StderrData (Inr ''late''), StderrDecoded 0]"

subsection \<open>Invariants of the supervision\<close>

text \<open>
  A promise is good when it is not rejected and will not be; it holds a text when it
  is pending with that text to come, or fulfilled with it.
\<close>

fun good :: "promise \<Rightarrow> bool" where
  "good (Pending (Inr t)) = True"
| "good (Fulfilled t) = True"
| "good p = False"

definition holds_text :: "promise \<Rightarrow> string \<Rightarrow> bool" where
  "holds_text p tx = (p = Pending (Inr tx) \<or> p = Fulfilled tx)"

text \<open>Every fulfilled promise has its lines in \<open>errorLogs\<close>.\<close>

definition lines_logged :: "string \<Rightarrow> supervision \<Rightarrow> bool" where
  "lines_logged eol r =
     (EOL r = eol
      \<and> (\<forall>j < length (errPromises r). \<forall>t. errPromises r ! j = Fulfilled t \<longrightarrow>
            set (split t eol) \<subseteq> set (errorLogs r)))"

text \<open>The error log of an exit event is a join of lines among which are those of a text.\<close>

definition carries :: "string \<Rightarrow> string \<Rightarrow> ExitEvent \<Rightarrow> bool" where
  "carries eol tx e =
     (\<exists>logs. errorLog e = join logs [CHR 0x0A] \<and> set (split tx eol) \<subseteq> set logs)"

text \<open>
  Before the watcher reports the exit: no \<open>Promise.all\<close> is waiting, every promise is
  good, every text of \<open>T\<close> is held by a promise, and no exit event is new.
\<close>

definition before_exit :: "LaunchService \<Rightarrow> string set \<Rightarrow> supervision \<Rightarrow> bool" where
  "before_exit s T r =
     (awaiting r = []
      \<and> (\<forall>j < length (errPromises r). good (errPromises r ! j))
      \<and> (\<forall>tx \<in> T. \<exists>j < length (errPromises r). holds_text (errPromises r ! j) tx)
      \<and> (\<forall>e. MinecraftExit e \<in> set (emitted (service r)) \<longrightarrow>
             MinecraftExit e \<in> set (emitted s)))"

text \<open>
  After it: every waiting \<open>Promise.all\<close> is over the first \<open>n\<close> promises, which are good
  and hold the texts of \<open>T\<close>, and every new exit event carries the texts of \<open>T\<close>.
\<close>

definition after_exit ::
  "LaunchService \<Rightarrow> string \<Rightarrow> string set \<Rightarrow> nat \<Rightarrow> supervision \<Rightarrow> bool" where
  "after_exit s eol T n r =
     ((\<forall>x \<in> set (awaiting r). snd x = n)
      \<and> n \<le> length (errPromises r)
      \<and> (\<forall>j < n. good (errPromises r ! j))
      \<and> (\<forall>tx \<in> T. \<exists>j < n. holds_text (errPromises r ! j) tx)
      \<and> (\<forall>e. MinecraftExit e \<in> set (emitted (service r)) \<longrightarrow>
             MinecraftExit e \<in> set (emitted s) \<or> (\<forall>tx \<in> T. carries eol tx e)))"

section \<open>Evaluation of the sample inputs\<close>

lemmas install_simps = sample_services_def plain_request_def plain_header_def
  install_result_def install_actions_def install_def install_base_def install_forge_def
  install_neoForged_def install_loader_def install_other_def await_def call_def return_io_def
  getCacheOrFetch_def asMinecraftVersionList_def asForgeVersionList_def
  asNeoForgedVersionList_def asLabyModManifest_def truthy_def if_truthy_def or_empty_def
  startsWith_def Let_def

lemmas launch_simps = sample_user_def sample_options_def sample_launch_services_def idle_def
  launch_def launch_try_def launch_prepare_def validate_java_def check_assets_def
  generateArguments_def generateArguments_try_def rethrow_def get_accessToken_def
  resolve_version_def generateOptions_def getAddress_def Let_def

section \<open>Properties of \<open>install\<close>\<close>

subsection \<open>The stages one by one\<close>

lemma install_forge_unset:
  "\<not> truthy (RuntimeVersions.forge runtime) \<Longrightarrow>
     install_forge sv local runtime sd w = (Inr None, w)"
  by (auto simp: install_forge_def truthy_def if_truthy_def return_io_def Let_def
      split: option.splits)

lemma install_neoForged_unset:
  "\<not> truthy (RuntimeVersions.neoForged runtime) \<Longrightarrow>
     install_neoForged sv local runtime fv w = (Inr fv, w)"
  by (auto simp: install_neoForged_def truthy_def if_truthy_def return_io_def Let_def
      split: option.splits)

lemma install_loader_plain:
  "\<not> truthy (RuntimeVersions.optifine runtime) \<Longrightarrow>
     install_loader sv local runtime None = install_other sv local runtime"
  by (auto simp: install_loader_def truthy_def if_truthy_def Let_def split: option.splits)

lemma install_loader_forge:
  "\<not> truthy (RuntimeVersions.optifine runtime) \<Longrightarrow> fv \<noteq> [] \<Longrightarrow>
     install_loader sv local runtime (Some fv) w = (Inr fv, w)"
  by (auto simp: install_loader_def truthy_def if_truthy_def return_io_def Let_def
      split: option.splits)

lemma install_other_fabric:
  assumes "RuntimeVersions.fabricLoader runtime = Some f" "f \<noteq> []"
  shows "install_other sv local runtime w =
       (case find (\<lambda>v. LocalVersionHeader.fabric v = f
                      \<and> LocalVersionHeader.minecraft v = RuntimeVersions.minecraft runtime)
               local of
          Some localFabric \<Rightarrow>
            (case refreshVersion sv (LocalVersionHeader.id localFabric) of
               Inl e \<Rightarrow> Inl e
             | Inr _ \<Rightarrow> Inr (LocalVersionHeader.id localFabric),
             w\<lparr>log := log w @ [RefreshVersion (LocalVersionHeader.id localFabric)]\<rparr>)
        | None \<Rightarrow>
            (installFabric sv f (RuntimeVersions.minecraft runtime),
             w\<lparr>log := log w @ [InstallFabric f (RuntimeVersions.minecraft runtime)]\<rparr>))"
  using assms
  by (auto simp: install_other_def if_truthy_def Let_def await_def call_def return_io_def
      split: option.splits sum.splits)

subsection \<open>The log only grows\<close>

lemma await_grows:
  assumes "\<And>w r w'. m w = (r, w') \<Longrightarrow> \<exists>xs. log w' = log w @ xs"
    and "\<And>x w r w'. k x w = (r, w') \<Longrightarrow> \<exists>xs. log w' = log w @ xs"
    and "await m k w = (r, w')"
  shows "\<exists>xs. log w' = log w @ xs"
proof (cases "m w")
  case (Pair r1 w1)
  from assms(1) [OF Pair] obtain xs where x: "log w1 = log w @ xs" by blast
  show ?thesis
  proof (cases r1)
    case (Inl e)
    with Pair assms(3) x show ?thesis by (simp add: await_def)
  next
    case (Inr v)
    with Pair assms(3) have "k v w1 = (r, w')" by (simp add: await_def)
    from assms(2) [OF this] x show ?thesis by auto
  qed
qed

lemma install_base_actions:
  "install_base sv local runtime sd force w = (r, w') \<Longrightarrow>
     \<exists>xs. log w' = log w @ xs \<and> (\<forall>a \<in> set xs. \<not> is_InstallQuilt a)"
  by (auto simp: install_base_def Let_def await_def call_def asMinecraftVersionList_def
        getCacheOrFetch_def
      split: option.splits sum.splits prod.splits if_splits cached.splits side.splits)

lemma install_base_grows:
  "install_base sv local runtime sd force w = (r, w') \<Longrightarrow> \<exists>xs. log w' = log w @ xs"
  using install_base_actions by blast

lemma install_forge_grows:
  "install_forge sv local runtime sd w = (r, w') \<Longrightarrow> \<exists>xs. log w' = log w @ xs"
  by (auto simp: install_forge_def if_truthy_def Let_def await_def call_def return_io_def
        getCacheOrFetch_def asForgeVersionList_def
      split: option.splits sum.splits prod.splits cached.splits if_splits)

lemma install_neoForged_grows:
  "install_neoForged sv local runtime fv0 w = (r, w') \<Longrightarrow> \<exists>xs. log w' = log w @ xs"
  by (auto simp: install_neoForged_def if_truthy_def Let_def await_def call_def return_io_def
        getCacheOrFetch_def asNeoForgedVersionList_def
      split: option.splits sum.splits prod.splits cached.splits if_splits)

lemma install_other_grows:
  "install_other sv local runtime w = (r, w') \<Longrightarrow> \<exists>xs. log w' = log w @ xs"
  by (auto simp: install_other_def if_truthy_def Let_def await_def call_def return_io_def
        getCacheOrFetch_def asLabyModManifest_def
      split: option.splits sum.splits prod.splits cached.splits if_splits)

lemma install_loader_grows:
  "install_loader sv local runtime fv w = (r, w') \<Longrightarrow> \<exists>xs. log w' = log w @ xs"
  using install_other_grows [of sv local runtime w r w']
  by (auto simp: install_loader_def if_truthy_def Let_def await_def call_def return_io_def
      split: option.splits sum.splits prod.splits if_splits)

subsection \<open>What a branch that ran has left in the log\<close>

lemma install_forge_ran:
  assumes "RuntimeVersions.forge runtime = Some f" "f \<noteq> []"
    and "install_forge sv local runtime sd w = (Inr fv, w')"
  shows "(case find (\<lambda>v. LocalVersionHeader.forge v = f
              \<and> LocalVersionHeader.minecraft v = RuntimeVersions.minecraft runtime) local of
            Some h \<Rightarrow> RefreshVersion (LocalVersionHeader.id h) \<in> set (log w')
          | None \<Rightarrow> (\<exists>opts. InstallForge opts \<in> set (log w')
               \<and> InstallForgeOptions.mcversion opts = RuntimeVersions.minecraft runtime))"
  using assms
  by (auto simp: install_forge_def if_truthy_def Let_def await_def call_def return_io_def
        getCacheOrFetch_def asForgeVersionList_def
      split: option.splits sum.splits prod.splits cached.splits)

lemma install_neoForged_ran:
  assumes "RuntimeVersions.neoForged runtime = Some n" "n \<noteq> []"
    and "install_neoForged sv local runtime fv0 w = (Inr fv, w')"
  shows "(case find (\<lambda>v. LocalVersionHeader.neoForged v = n
              \<and> LocalVersionHeader.minecraft v = RuntimeVersions.minecraft runtime) local of
            Some h \<Rightarrow> RefreshVersion (LocalVersionHeader.id h) \<in> set (log w')
          | None \<Rightarrow> (\<exists>i. InstallNeoForged i (RuntimeVersions.minecraft runtime) \<in> set (log w')))"
  using assms
  by (auto simp: install_neoForged_def if_truthy_def Let_def await_def call_def return_io_def
        getCacheOrFetch_def asNeoForgedVersionList_def
      split: option.splits sum.splits prod.splits cached.splits)


subsection \<open>Forge and NeoForge\<close>

text \<open>
  Claim C1, as stated: when both \<open>forge\<close> and \<open>neoForged\<close> are set, the NeoForge branch
  is the else-branch of the Forge branch, so the NeoForge catalog is not consulted and
  the NeoForge installer is not invoked. The source has two statements in sequence.
  With no local header and an empty cache, one call fetches both catalogs and invokes
  both installers, and returns what the NeoForge installer returned.
\<close>

theorem install_forge_excludes_neoForged_counterexample:
  "truthy (RuntimeVersions.forge forge_neoForged_request)
   \<and> truthy (RuntimeVersions.neoForged forge_neoForged_request)
   \<and> install_actions sample_services [] Map.empty forge_neoForged_request Client False =
       [Fetch ''/minecraft-versions'',
        InstallMinecraft
          (Some \<lparr>MinecraftVersion.id = ''1.20.1'', url = ''https://meta/1.20.1.json''\<rparr>) Client,
        Fetch ''/forge-versions/1.20.1'',
        InstallForge
          \<lparr>InstallForgeOptions.mcversion = ''1.20.1'', InstallForgeOptions.version = ''47.2.0'',
           InstallForgeOptions.installer = Some ''installer.jar'',
           InstallForgeOptions.side = Client\<rparr>,
        Fetch ''/neoforged-versions/1.20.1'',
        InstallNeoForged ''47.1.99'' ''1.20.1'']
   \<and> install_result sample_services [] Map.empty forge_neoForged_request Client False
         = Inr ''1.20.1-neoforged-47.1.99''"
  by (simp add: forge_neoForged_request_def install_simps)

text \<open>
  Claim C1, amended: for every request in which both \<open>forge\<close> and \<open>neoForged\<close> are
  set, a call of \<open>install\<close> that returns has run the Forge branch and then the
  NeoForge branch. Each has refreshed its local header when there is one, and invoked
  its installer otherwise; with no local header for either, both installers have been
  invoked by the one call.
\<close>

theorem install_forge_and_neoForged:
  assumes fo: "RuntimeVersions.forge runtime = Some f" "f \<noteq> []"
    and ne: "RuntimeVersions.neoForged runtime = Some n" "n \<noteq> []"
    and res: "install_result sv local c runtime sd force = Inr r"
  shows "(case find (\<lambda>v. LocalVersionHeader.forge v = f
              \<and> LocalVersionHeader.minecraft v = RuntimeVersions.minecraft runtime) local of
            Some h \<Rightarrow> RefreshVersion (LocalVersionHeader.id h)
                       \<in> set (install_actions sv local c runtime sd force)
          | None \<Rightarrow> (\<exists>opts. InstallForge opts \<in> set (install_actions sv local c runtime sd force)
               \<and> InstallForgeOptions.mcversion opts = RuntimeVersions.minecraft runtime))
       \<and> (case find (\<lambda>v. LocalVersionHeader.neoForged v = n
              \<and> LocalVersionHeader.minecraft v = RuntimeVersions.minecraft runtime) local of
            Some h \<Rightarrow> RefreshVersion (LocalVersionHeader.id h)
                       \<in> set (install_actions sv local c runtime sd force)
          | None \<Rightarrow> (\<exists>i. InstallNeoForged i (RuntimeVersions.minecraft runtime)
                       \<in> set (install_actions sv local c runtime sd force)))"
proof -
  let ?w0 = "\<lparr>cache = c, log = []\<rparr>"
  obtain r1 w1 where s1: "install_base sv local runtime sd force ?w0 = (r1, w1)"
    by (cases "install_base sv local runtime sd force ?w0")
  obtain r2 w2 where s2: "install_forge sv local runtime sd w1 = (r2, w2)"
    by (cases "install_forge sv local runtime sd w1")
  from res s1 have r1: "r1 = Inr ()"
    by (cases r1) (auto simp: install_result_def install_def await_def)
  from res s1 s2 r1 obtain fv where r2: "r2 = Inr fv"
    by (cases r2) (auto simp: install_result_def install_def await_def)
  obtain r3 w3 where s3: "install_neoForged sv local runtime fv w2 = (r3, w3)"
    by (cases "install_neoForged sv local runtime fv w2")
  from res s1 s2 s3 r1 r2 obtain fv' where r3: "r3 = Inr fv'"
    by (cases r3) (auto simp: install_result_def install_def await_def)
  obtain r4 w4 where s4: "install_loader sv local runtime fv' w3 = (r4, w4)"
    by (cases "install_loader sv local runtime fv' w3")
  have acts: "install_actions sv local c runtime sd force = log w4"
    using s1 s2 s3 s4 r1 r2 r3 by (simp add: install_actions_def install_def await_def)
  from install_neoForged_grows [OF s3] obtain xs where g3: "log w3 = log w2 @ xs" by blast
  from install_loader_grows [OF s4] obtain ys where g4: "log w4 = log w3 @ ys" by blast
  have sub2: "set (log w2) \<subseteq> set (log w4)" and sub3: "set (log w3) \<subseteq> set (log w4)"
    using g3 g4 by auto
  have A: "(case find (\<lambda>v. LocalVersionHeader.forge v = f
              \<and> LocalVersionHeader.minecraft v = RuntimeVersions.minecraft runtime) local of
            Some h \<Rightarrow> RefreshVersion (LocalVersionHeader.id h) \<in> set (log w4)
          | None \<Rightarrow> (\<exists>opts. InstallForge opts \<in> set (log w4)
               \<and> InstallForgeOptions.mcversion opts = RuntimeVersions.minecraft runtime))"
    using install_forge_ran [OF fo, of sv local sd w1 fv w2] s2 r2 sub2
    by (auto split: option.splits)
  have B: "(case find (\<lambda>v. LocalVersionHeader.neoForged v = n
              \<and> LocalVersionHeader.minecraft v = RuntimeVersions.minecraft runtime) local of
            Some h \<Rightarrow> RefreshVersion (LocalVersionHeader.id h) \<in> set (log w4)
          | None \<Rightarrow> (\<exists>i. InstallNeoForged i (RuntimeVersions.minecraft runtime) \<in> set (log w4)))"
    using install_neoForged_ran [OF ne, of sv local fv w2 fv' w3] s3 r3 sub3
    by (auto split: option.splits)
  show ?thesis unfolding acts using A B by (rule conjI)
qed

theorem install_forge_and_neoForged_witness:
  "install_result sample_services [] Map.empty forge_neoForged_request Client False
         = Inr ''1.20.1-neoforged-47.1.99''
   \<and> (\<exists>opts. InstallForge opts
          \<in> set (install_actions sample_services [] Map.empty forge_neoForged_request Client False)
        \<and> InstallForgeOptions.mcversion opts = ''1.20.1'')
   \<and> (\<exists>i. InstallNeoForged i ''1.20.1''
          \<in> set (install_actions sample_services [] Map.empty forge_neoForged_request Client False))"
proof -
  have r: "install_result sample_services [] Map.empty forge_neoForged_request Client False
         = Inr ''1.20.1-neoforged-47.1.99''"
    by (simp add: forge_neoForged_request_def install_simps)
  have f: "RuntimeVersions.forge forge_neoForged_request = Some ''47.2.0''"
    and n: "RuntimeVersions.neoForged forge_neoForged_request = Some ''47.1.99''"
    and m: "RuntimeVersions.minecraft forge_neoForged_request = ''1.20.1''"
    by (simp_all add: forge_neoForged_request_def plain_request_def)
  from install_forge_and_neoForged [OF f _ n _ r] m r show ?thesis by simp
qed

subsection \<open>Forge already installed\<close>

text \<open>
  Claim C4, as stated: with \<open>forge\<close> set, local headers for the base version and for the
  pair of base version and Forge version, and no forced reinstall, \<open>install\<close> fetches
  no catalog, invokes no installer and returns the id of the Forge header. The request
  below has all that, and \<open>neoForged\<close> and \<open>optifine\<close> as well, and starts with an empty
  cache: two catalogs are fetched, two installers run, and the Optifine id is returned.
\<close>

theorem install_forge_local_no_effects_counterexample:
  "truthy (RuntimeVersions.forge forge_neoForged_optifine_request)
   \<and> find (\<lambda>v. LocalVersionHeader.id v = ''1.20.1'') forge_local_headers
       = Some (plain_header ''1.20.1'' ''1.20.1'')
   \<and> find (\<lambda>v. LocalVersionHeader.forge v = ''47.2.0'' \<and> LocalVersionHeader.minecraft v = ''1.20.1'')
        forge_local_headers = Some forge_header
   \<and> install_actions sample_services forge_local_headers Map.empty
        forge_neoForged_optifine_request Client False =
       [Fetch ''/minecraft-versions'',
        RefreshVersion ''1.20.1'',
        RefreshVersion ''1.20.1-forge-47.2.0'',
        Fetch ''/neoforged-versions/1.20.1'',
        InstallNeoForged ''47.1.99'' ''1.20.1'',
        InstallOptifine
          \<lparr>InstallOptifineOptions.type = ''_HD_U'', patch = ''I6'',
           InstallOptifineOptions.mcversion = ''1.20.1'',
           inheritFrom = Some ''1.20.1-neoforged-47.1.99''\<rparr>]
   \<and> install_result sample_services forge_local_headers Map.empty
        forge_neoForged_optifine_request Client False = Inr ''1.20.1-Optifine''"
  by (simp add: forge_neoForged_optifine_request_def forge_local_headers_def forge_header_def
      install_simps)

text \<open>
  Claim C4, amended: for every request with \<open>forge\<close> set and \<open>neoForged\<close> and \<open>optifine\<close>
  not set, with a local header whose id is the base version, a local header for the
  pair of base version and Forge version whose id is not empty, and no forced
  reinstall, \<open>install\<close> invokes no installer and fetches no catalog but the base-version
  catalog, and that one only when the cache does not hold it. When the catalog is at
  hand and both refreshes succeed, the actions are that fetch, if any, and the two
  refreshes, and the result is the id of the first matching Forge header.
\<close>

theorem install_forge_local:
  assumes fo: "RuntimeVersions.forge runtime = Some f" "f \<noteq> []"
    and non: "\<not> truthy (RuntimeVersions.neoForged runtime)"
    and noo: "\<not> truthy (RuntimeVersions.optifine runtime)"
    and lm: "find (\<lambda>v. LocalVersionHeader.id v = RuntimeVersions.minecraft runtime) local
               = Some localMinecraft"
    and nojar: "\<not> force"
    and lf: "find (\<lambda>v. LocalVersionHeader.forge v = f
              \<and> LocalVersionHeader.minecraft v = RuntimeVersions.minecraft runtime) local
               = Some localForge"
    and idf: "LocalVersionHeader.id localForge \<noteq> []"
  shows "(\<forall>a \<in> set (install_actions sv local c runtime sd force).
            \<not> is_installer a
            \<and> (is_fetch a \<longrightarrow> a = Fetch ''/minecraft-versions'' \<and> c ''/minecraft-versions'' = None))
       \<and> ((c ''/minecraft-versions'' \<noteq> None \<or> (\<exists>vs. getMinecraftVersionList sv = Inr vs))
            \<and> refreshVersion sv (LocalVersionHeader.id localMinecraft) = Inr ()
            \<and> refreshVersion sv (LocalVersionHeader.id localForge) = Inr ()
          \<longrightarrow> install_result sv local c runtime sd force = Inr (LocalVersionHeader.id localForge)
            \<and> install_actions sv local c runtime sd force =
                (if c ''/minecraft-versions'' = None then [Fetch ''/minecraft-versions''] else [])
                @ [RefreshVersion (LocalVersionHeader.id localMinecraft),
                   RefreshVersion (LocalVersionHeader.id localForge)])"
proof -
  let ?w0 = "\<lparr>cache = c, log = []\<rparr>"
  let ?lm = "LocalVersionHeader.id localMinecraft"
  let ?lf = "LocalVersionHeader.id localForge"
  have base: "install_base sv local runtime sd force =
     await (getCacheOrFetch ''/minecraft-versions''
               (map_sum (\<lambda>e. e) MinecraftVersionList (getMinecraftVersionList sv)))
       (\<lambda>_. call (RefreshVersion ?lm) (refreshVersion sv ?lm))"
    using lm nojar by (simp add: install_base_def Let_def)
  have forge: "install_forge sv local runtime sd =
     await (call (RefreshVersion ?lf) (refreshVersion sv ?lf)) (\<lambda>_. return_io (Some ?lf))"
    using fo lf by (simp add: install_forge_def if_truthy_def Let_def)
  have run: "install sv local runtime sd force ?w0 =
     (case c ''/minecraft-versions'' of
        Some v \<Rightarrow>
          (case refreshVersion sv ?lm of
             Inl e \<Rightarrow> (Inl e, \<lparr>cache = c, log = [RefreshVersion ?lm]\<rparr>)
           | Inr _ \<Rightarrow>
             (case refreshVersion sv ?lf of
                Inl e \<Rightarrow> (Inl e, \<lparr>cache = c, log = [RefreshVersion ?lm, RefreshVersion ?lf]\<rparr>)
              | Inr _ \<Rightarrow> (Inr ?lf, \<lparr>cache = c, log = [RefreshVersion ?lm, RefreshVersion ?lf]\<rparr>)))
      | None \<Rightarrow>
          (case getMinecraftVersionList sv of
             Inl e \<Rightarrow> (Inl e, \<lparr>cache = c, log = [Fetch ''/minecraft-versions'']\<rparr>)
           | Inr vs \<Rightarrow>
          (case refreshVersion sv ?lm of
             Inl e \<Rightarrow> (Inl e, \<lparr>cache = c(''/minecraft-versions'' \<mapsto> MinecraftVersionList vs),
                 log = [Fetch ''/minecraft-versions'', RefreshVersion ?lm]\<rparr>)
           | Inr _ \<Rightarrow>
             (case refreshVersion sv ?lf of
                Inl e \<Rightarrow> (Inl e, \<lparr>cache = c(''/minecraft-versions'' \<mapsto> MinecraftVersionList vs),
                     log = [Fetch ''/minecraft-versions'', RefreshVersion ?lm, RefreshVersion ?lf]\<rparr>)
              | Inr _ \<Rightarrow> (Inr ?lf,
                   \<lparr>cache = c(''/minecraft-versions'' \<mapsto> MinecraftVersionList vs),
                     log = [Fetch ''/minecraft-versions'', RefreshVersion ?lm,
                            RefreshVersion ?lf]\<rparr>)))))"
    unfolding install_def base forge
    using non noo idf
    by (simp add: await_def call_def return_io_def getCacheOrFetch_def
        install_neoForged_unset install_loader_forge
        split: option.splits sum.splits)
  show ?thesis
    unfolding install_actions_def install_result_def run
    by (simp split: option.splits sum.splits)
qed

theorem install_forge_local_witness:
  "install_result sample_services forge_local_headers Map.empty forge_request Client False
      = Inr ''1.20.1-forge-47.2.0''
   \<and> install_actions sample_services forge_local_headers Map.empty forge_request Client False
      = [Fetch ''/minecraft-versions'', RefreshVersion ''1.20.1'',
         RefreshVersion ''1.20.1-forge-47.2.0'']"
proof -
  let ?lm = "plain_header ''1.20.1'' ''1.20.1''"
  have f: "RuntimeVersions.forge forge_request = Some ''47.2.0''"
    and n: "\<not> truthy (RuntimeVersions.neoForged forge_request)"
    and opt: "\<not> truthy (RuntimeVersions.optifine forge_request)"
    and m: "RuntimeVersions.minecraft forge_request = ''1.20.1''"
    by (simp_all add: forge_request_def plain_request_def truthy_def)
  have lm: "find (\<lambda>v. LocalVersionHeader.id v = RuntimeVersions.minecraft forge_request)
              forge_local_headers = Some ?lm"
    unfolding m by (simp add: forge_local_headers_def plain_header_def)
  have lf: "find (\<lambda>v. LocalVersionHeader.forge v = ''47.2.0''
              \<and> LocalVersionHeader.minecraft v = RuntimeVersions.minecraft forge_request)
              forge_local_headers = Some forge_header"
    unfolding m by (simp add: forge_local_headers_def forge_header_def plain_header_def)
  have ids: "LocalVersionHeader.id ?lm = ''1.20.1''"
      "LocalVersionHeader.id forge_header = ''1.20.1-forge-47.2.0''"
    by (simp_all add: forge_header_def plain_header_def)
  have sv: "getMinecraftVersionList sample_services
               = Inr [\<lparr>MinecraftVersion.id = ''1.20.1'', url = ''https://meta/1.20.1.json''\<rparr>]"
      "\<And>i. refreshVersion sample_services i = Inr ()"
    by (simp_all add: sample_services_def)
  have ne: "''47.2.0'' \<noteq> []" and nj: "\<not> False"
    and idf: "LocalVersionHeader.id forge_header \<noteq> []"
    by (simp_all add: forge_header_def plain_header_def)
  note T = install_forge_local [OF f ne n opt lm nj lf idf, of sample_services Map.empty Client]
  from T [THEN conjunct2]
  show ?thesis unfolding ids sv by simp
qed

subsection \<open>Fabric before Quilt\<close>

text \<open>
  Claim C7: for every request in which \<open>fabricLoader\<close> and \<open>quiltLoader\<close> are both set
  and \<open>forge\<close>, \<open>neoForged\<close> and \<open>optifine\<close> are not, \<open>install\<close> never invokes the Quilt
  installer, and once the base version is in place its result is that of the Fabric
  branch: the id of the local Fabric header after its refresh, or else what the Fabric
  installer returns. A failure of the base step is the failure of \<open>install\<close>.
\<close>

theorem install_fabric_before_quilt:
  assumes fab: "RuntimeVersions.fabricLoader runtime = Some f" "f \<noteq> []"
    and qui: "RuntimeVersions.quiltLoader runtime = Some q" "q \<noteq> []"
    and nof: "\<not> truthy (RuntimeVersions.forge runtime)"
    and non: "\<not> truthy (RuntimeVersions.neoForged runtime)"
    and noo: "\<not> truthy (RuntimeVersions.optifine runtime)"
  shows "(\<forall>a \<in> set (install_actions sv local c runtime sd force). \<not> is_InstallQuilt a)
       \<and> (\<forall>e. fst (install_base sv local runtime sd force \<lparr>cache = c, log = []\<rparr>) = Inl e \<longrightarrow>
             install_result sv local c runtime sd force = Inl e)
       \<and> (fst (install_base sv local runtime sd force \<lparr>cache = c, log = []\<rparr>) = Inr () \<longrightarrow>
            install_result sv local c runtime sd force =
              (case find (\<lambda>v. LocalVersionHeader.fabric v = f
                          \<and> LocalVersionHeader.minecraft v = RuntimeVersions.minecraft runtime)
                      local of
                 Some localFabric \<Rightarrow>
                   (case refreshVersion sv (LocalVersionHeader.id localFabric) of
                      Inl e \<Rightarrow> Inl e
                    | Inr _ \<Rightarrow> Inr (LocalVersionHeader.id localFabric))
               | None \<Rightarrow> installFabric sv f (RuntimeVersions.minecraft runtime)))"
proof -
  let ?w0 = "\<lparr>cache = c, log = []\<rparr>"
  obtain r w1 where base: "install_base sv local runtime sd force ?w0 = (r, w1)"
    by (cases "install_base sv local runtime sd force ?w0")
  from install_base_actions [OF base]
  have l1: "\<forall>a \<in> set (log w1). \<not> is_InstallQuilt a" by auto
  have run: "install sv local runtime sd force ?w0 =
      (case r of Inl e \<Rightarrow> (Inl e, w1) | Inr _ \<Rightarrow> install_other sv local runtime w1)"
    using base nof non noo
    by (simp add: install_def await_def install_forge_unset install_neoForged_unset
        install_loader_plain split: sum.splits)
  show ?thesis
    using base run l1 install_other_fabric [OF fab, of sv local w1]
    by (auto simp: install_actions_def install_result_def split: sum.splits option.splits)
qed

theorem install_fabric_before_quilt_witness:
  "install_result sample_services [] Map.empty fabric_quilt_request Client False
     = Inr ''1.20.1-fabric0.15.0''
   \<and> list_all (\<lambda>a. \<not> is_InstallQuilt a)
         (install_actions sample_services [] Map.empty fabric_quilt_request Client False)"
  using install_fabric_before_quilt [where runtime = fabric_quilt_request
      and f = "''0.15.0''" and q = "''0.20.0''" and sv = sample_services and local = "[]"
      and sd = Client and force = False and c = Map.empty]
  by (simp add: fabric_quilt_request_def plain_request_def truthy_def sample_services_def
      install_base_def Let_def await_def getCacheOrFetch_def asMinecraftVersionList_def call_def
      list_all_iff)

subsection \<open>A base version the catalog does not know\<close>

text \<open>
  Claim C9: for every request whose base version has no local header, or whose jar is
  to be reinstalled, and whose base version is not in the base-version catalog (held by
  the cache, or fetched), \<open>install\<close> raises no error of its own. The base installer is
  invoked with undefined metadata, the outcome of the base step is the installer's
  answer to that, and when the installer rejects, its rejection is that of \<open>install\<close>.
\<close>

theorem install_base_missing_metadata:
  assumes miss: "find (\<lambda>v. LocalVersionHeader.id v = RuntimeVersions.minecraft runtime) local = None
                 \<or> force"
    and cat: "c ''/minecraft-versions'' = Some (MinecraftVersionList vs)
              \<or> (c ''/minecraft-versions'' = None \<and> getMinecraftVersionList sv = Inr vs)"
    and absent: "find (\<lambda>v. MinecraftVersion.id v = RuntimeVersions.minecraft runtime) vs = None"
  shows "fst (install_base sv local runtime sd force \<lparr>cache = c, log = []\<rparr>)
           = installMinecraft sv None sd
       \<and> InstallMinecraft None sd \<in> set (install_actions sv local c runtime sd force)
       \<and> (\<forall>e. installMinecraft sv None sd = Inl e \<longrightarrow>
             install_result sv local c runtime sd force = Inl e)"
proof -
  let ?w0 = "\<lparr>cache = c, log = []\<rparr>"
  let ?rest = "await (install_forge sv local runtime sd)
          (\<lambda>forgeVersion. await (install_neoForged sv local runtime forgeVersion)
             (\<lambda>forgeVersion. install_loader sv local runtime forgeVersion))"
  have base: "\<exists>w1. install_base sv local runtime sd force ?w0 = (installMinecraft sv None sd, w1)
       \<and> InstallMinecraft None sd \<in> set (log w1)"
    using miss cat absent
    by (cases sd)
       (auto simp: install_base_def Let_def await_def call_def getCacheOrFetch_def
          asMinecraftVersionList_def split: option.splits)
  then obtain w1
    where b: "install_base sv local runtime sd force ?w0 = (installMinecraft sv None sd, w1)"
      and l1: "InstallMinecraft None sd \<in> set (log w1)"
    by blast
  obtain r w' where rest: "?rest w1 = (r, w')"
    by (cases "?rest w1")
  have run: "install sv local runtime sd force ?w0 =
      (case installMinecraft sv None sd of Inl e \<Rightarrow> (Inl e, w1) | Inr _ \<Rightarrow> (r, w'))"
    using b rest by (simp add: install_def await_def split: sum.splits)
  have g: "\<exists>xs. log w' = log w1 @ xs"
    using rest
    by (rule await_grows [rotated 2])
       (erule await_grows [rotated 2] install_forge_grows
          install_neoForged_grows install_loader_grows)+
  show ?thesis
  proof (cases "installMinecraft sv None sd")
    case (Inl e)
    then show ?thesis using b run l1
      by (auto simp: install_actions_def install_result_def)
  next
    case (Inr u)
    then show ?thesis using b run l1 g
      by (auto simp: install_actions_def install_result_def)
  qed
qed

theorem install_base_missing_metadata_witness:
  "find (\<lambda>v. LocalVersionHeader.id v = ''1.19'') [] = None
   \<and> find (\<lambda>v. MinecraftVersion.id v = ''1.19'')
        [\<lparr>MinecraftVersion.id = ''1.20.1'', url = ''https://meta/1.20.1.json''\<rparr>] = None
   \<and> fst (install_base sample_services [] (plain_request ''1.19'') Client False
            \<lparr>cache = Map.empty, log = []\<rparr>) = Inr ()
   \<and> InstallMinecraft None Client
        \<in> set (install_actions sample_services [] Map.empty (plain_request ''1.19'') Client False)"
  using install_base_missing_metadata [where runtime = "plain_request ''1.19''" and local = "[]"
      and force = False and c = Map.empty and sv = sample_services and sd = Client
      and vs = "[\<lparr>MinecraftVersion.id = ''1.20.1'', url = ''https://meta/1.20.1.json''\<rparr>]"]
  by (simp add: plain_request_def sample_services_def)


section \<open>Properties of the launch service\<close>

subsection \<open>The java path\<close>

text \<open>
  Claim C2: a java path that does not exist makes \<open>launch\<close> fail with
  \<open>launchInvalidJavaPath\<close>, and one that exists but is not executable with
  \<open>launchJavaNoPermission\<close>. The source throws both inside the \<open>try\<close> block of lines
  184 to 194, whose \<open>catch\<close> clause throws \<open>launchNoProperJava\<close> for whatever it
  catches. At the sample options, with a validation that answers \<open>NotExisted\<close> or
  \<open>NoPermission\<close>, the caller gets \<open>launchNoProperJava\<close> both times.
\<close>

theorem launch_java_validation_rethrown:
  "fst (launch (sample_launch_services\<lparr>validateJavaPath := (\<lambda>p. Inr NotExisted)\<rparr>)
          sample_options idle)
     = Inl (LaunchException (launchNoProperJava ''/usr/bin/java''))
   \<and> fst (launch (sample_launch_services\<lparr>validateJavaPath := (\<lambda>p. Inr NoPermission)\<rparr>)
            sample_options idle)
     = Inl (LaunchException (launchNoProperJava ''/usr/bin/java''))"
  by (simp add: launch_simps)

subsection \<open>Only launch exceptions leave the entry points\<close>










subsection \<open>The memory bounds\<close>

lemma generateOptions_memory:
  "generateOptions sv options v tok = Inr lo \<Longrightarrow>
     LaunchOption.minMemory lo = LaunchOptions.maxMemory options
     \<and> LaunchOption.maxMemory lo = LaunchOptions.minMemory options"
  by (auto simp: generateOptions_def Let_def split: option.splits sum.splits if_splits)

lemma launch_prepare_generateOptions:
  "launch_prepare sv options = Inr (v, lo) \<Longrightarrow>
     generateOptions sv options v (get_accessToken sv (LaunchOptions.user options)) = Inr lo"
  by (auto simp: launch_prepare_def Let_def split: option.splits sum.splits if_splits)

text \<open>
  Claim C8: for every \<open>LaunchOptions\<close>, the configuration that \<open>#generateOptions\<close>
  builds has \<open>options.maxMemory\<close> as its minimum memory and \<open>options.minMemory\<close> as its
  maximum memory, and this configuration is the one handed on: \<open>generateArguments\<close>
  answers what the argument generator answers on it, and \<open>launch\<close> what the spawner
  answers on it, so that every normal return of either comes from a call on a
  configuration with the two bounds exchanged.
\<close>

theorem generateOptions_exchanges_memory:
  "(\<forall>lo. generateOptions sv options v tok = Inr lo \<longrightarrow>
       LaunchOption.minMemory lo = LaunchOptions.maxMemory options
       \<and> LaunchOption.maxMemory lo = LaunchOptions.minMemory options)
   \<and> (\<forall>v' lo. launch_prepare sv options = Inr (v', lo) \<longrightarrow>
       LaunchOption.minMemory lo = LaunchOptions.maxMemory options
       \<and> LaunchOption.maxMemory lo = LaunchOptions.minMemory options)
   \<and> (\<forall>v' lo. resolve_version sv options = Some v' \<longrightarrow> java options \<noteq> [] \<longrightarrow>
         generateOptions sv options v' (get_accessToken sv (LaunchOptions.user options)) = Inr lo \<longrightarrow>
         generateArguments_try sv options = core_generateArguments sv lo)
   \<and> (\<forall>args. generateArguments sv options = Inr args \<longrightarrow>
         (\<exists>lo. LaunchOption.minMemory lo = LaunchOptions.maxMemory options
              \<and> LaunchOption.maxMemory lo = LaunchOptions.minMemory options
              \<and> core_generateArguments sv lo = Inr args))
   \<and> (\<forall>v' lo. launch_prepare sv options = Inr (v', lo) \<longrightarrow>
         fst (launch_try sv options s) = map_sum (\<lambda>e. e) ChildProcess.pid (core_launch sv lo))
   \<and> (\<forall>p. fst (launch sv options s) = Inr p \<longrightarrow>
         (\<exists>lo process. LaunchOption.minMemory lo = LaunchOptions.maxMemory options
              \<and> LaunchOption.maxMemory lo = LaunchOptions.minMemory options
              \<and> core_launch sv lo = Inr process \<and> p = ChildProcess.pid process))"
proof -
  have c1: "\<forall>lo. generateOptions sv options v tok = Inr lo \<longrightarrow>
       LaunchOption.minMemory lo = LaunchOptions.maxMemory options
       \<and> LaunchOption.maxMemory lo = LaunchOptions.minMemory options"
    using generateOptions_memory by blast
  have c2: "\<forall>v' lo. launch_prepare sv options = Inr (v', lo) \<longrightarrow>
       LaunchOption.minMemory lo = LaunchOptions.maxMemory options
       \<and> LaunchOption.maxMemory lo = LaunchOptions.minMemory options"
    using generateOptions_memory launch_prepare_generateOptions by blast
  have c3: "\<forall>v' lo. resolve_version sv options = Some v' \<longrightarrow> java options \<noteq> [] \<longrightarrow>
         generateOptions sv options v' (get_accessToken sv (LaunchOptions.user options)) = Inr lo \<longrightarrow>
         generateArguments_try sv options = core_generateArguments sv lo"
    by (simp add: generateArguments_try_def Let_def)
  have c4: "\<forall>args. generateArguments sv options = Inr args \<longrightarrow>
         (\<exists>lo. LaunchOption.minMemory lo = LaunchOptions.maxMemory options
              \<and> LaunchOption.maxMemory lo = LaunchOptions.minMemory options
              \<and> core_generateArguments sv lo = Inr args)"
  proof (intro allI impI)
    fix args assume "generateArguments sv options = Inr args"
    then have "generateArguments_try sv options = Inr args"
      by (simp add: generateArguments_def split: sum.splits)
    then obtain v' lo where
      "generateOptions sv options v' (get_accessToken sv (LaunchOptions.user options)) = Inr lo"
      "core_generateArguments sv lo = Inr args"
      by (auto simp: generateArguments_try_def Let_def split: option.splits if_splits sum.splits)
    with generateOptions_memory show "\<exists>lo. LaunchOption.minMemory lo = LaunchOptions.maxMemory options
              \<and> LaunchOption.maxMemory lo = LaunchOptions.minMemory options
              \<and> core_generateArguments sv lo = Inr args"
      by blast
  qed
  have c5: "\<forall>v' lo. launch_prepare sv options = Inr (v', lo) \<longrightarrow>
         fst (launch_try sv options s) = map_sum (\<lambda>e. e) ChildProcess.pid (core_launch sv lo)"
    by (simp add: launch_try_def split: sum.splits)
  have c6: "\<forall>p. fst (launch sv options s) = Inr p \<longrightarrow>
         (\<exists>lo process. LaunchOption.minMemory lo = LaunchOptions.maxMemory options
              \<and> LaunchOption.maxMemory lo = LaunchOptions.minMemory options
              \<and> core_launch sv lo = Inr process \<and> p = ChildProcess.pid process)"
  proof (intro allI impI)
    fix p assume "fst (launch sv options s) = Inr p"
    then have "fst (launch_try sv options s) = Inr p"
      by (auto simp: launch_def split: sum.splits prod.splits)
    then obtain v' lo process where "launch_prepare sv options = Inr (v', lo)"
      "core_launch sv lo = Inr process" "p = ChildProcess.pid process"
      by (auto simp: launch_try_def split: sum.splits prod.splits)
    with c2 show "\<exists>lo process. LaunchOption.minMemory lo = LaunchOptions.maxMemory options
              \<and> LaunchOption.maxMemory lo = LaunchOptions.minMemory options
              \<and> core_launch sv lo = Inr process \<and> p = ChildProcess.pid process"
      by blast
  qed
  from c1 c2 c3 c4 c5 c6 show ?thesis by (intro conjI)
qed

theorem generateOptions_exchanges_memory_witness:
  "LaunchOptions.maxMemory sample_options = Some 4096
   \<and> LaunchOptions.minMemory sample_options = Some 1024
   \<and> generateArguments sample_launch_services sample_options = Inr [''-Xms4096'', ''-Xmx1024'']
   \<and> (\<exists>v lo. launch_prepare sample_launch_services sample_options = Inr (v, lo)
         \<and> LaunchOption.minMemory lo = Some 4096
         \<and> LaunchOption.maxMemory lo = Some 1024)"
proof -
  let ?sv = sample_launch_services
  obtain v lo where p: "launch_prepare ?sv sample_options = Inr (v, lo)"
    by (simp add: launch_simps)
  have m: "LaunchOptions.maxMemory sample_options = Some 4096"
      "LaunchOptions.minMemory sample_options = Some 1024"
    by (simp_all add: sample_options_def)
  note T = generateOptions_exchanges_memory [of ?sv sample_options v None idle]
  from T p have sw: "LaunchOption.minMemory lo = LaunchOptions.maxMemory sample_options
       \<and> LaunchOption.maxMemory lo = LaunchOptions.minMemory sample_options"
    by blast
  obtain v' lo' where rv: "resolve_version ?sv sample_options = Some v'"
    and go: "generateOptions ?sv sample_options v' (get_accessToken ?sv (LaunchOptions.user sample_options))
               = Inr lo'"
    by (simp add: launch_simps)
  have j: "java sample_options \<noteq> []" by (simp add: sample_options_def)
  from T rv j go have g: "generateArguments_try ?sv sample_options = core_generateArguments ?sv lo'"
    by blast
  from T go have sw': "LaunchOption.minMemory lo' = Some 4096" "LaunchOption.maxMemory lo' = Some 1024"
    using generateOptions_exchanges_memory [of ?sv sample_options v'
        "get_accessToken ?sv (LaunchOptions.user sample_options)" idle] m by auto
  have d: "decimal 4096 = ''4096''" "decimal 1024 = ''1024''" by code_simp+
  have "core_generateArguments ?sv lo' = Inr [''-Xms4096'', ''-Xmx1024'']"
    using sw' d by (simp add: sample_launch_services_def memory_argument_def)
  with g have "generateArguments ?sv sample_options = Inr [''-Xms4096'', ''-Xmx1024'']"
    by (simp add: generateArguments_def)
  with p sw m show ?thesis by auto
qed

subsection \<open>The value of \<open>launch\<close>\<close>

text \<open>
  Claim C10: whenever the steps before the spawn succeed and the spawn returns a
  process, \<open>launch\<close> returns the pid of that process, a number or undefined, and not a
  boolean; the process is registered under that pid and its start is announced.
\<close>

theorem launch_returns_pid:
  assumes "launch_prepare sv options = Inr (v, lo)"
    and "core_launch sv lo = Inr process"
  shows "launch sv options s =
      (Inr (ChildProcess.pid process),
       s\<lparr>processes := (processes s)(ChildProcess.pid process \<mapsto> process),
         emitted := emitted s @
           [MinecraftStart (ChildProcess.pid process) (minecraftVersion v) options]\<rparr>)"
  using assms by (simp add: launch_def launch_try_def)

theorem launch_returns_pid_witness:
  "fst (launch sample_launch_services sample_options idle) = Inr (Some 4242)"
proof -
  obtain v lo where p: "launch_prepare sample_launch_services sample_options = Inr (v, lo)"
    by (simp add: launch_simps)
  have c: "core_launch sample_launch_services lo = Inr \<lparr>ChildProcess.pid = Some 4242\<rparr>"
    by (simp add: sample_launch_services_def)
  from launch_returns_pid [OF p c, of idle] show ?thesis by simp
qed


section \<open>Properties of the supervision\<close>

subsection \<open>The crash report location\<close>



lemma find_rev_upt_last:
  "find P (rev [0 ..< n]) = Some k \<Longrightarrow> k < j \<Longrightarrow> j < n \<Longrightarrow> \<not> P j"
proof (induction n)
  case 0
  then show ?case by simp
next
  case (Suc n)
  then show ?case by (cases "P n") (auto simp: less_Suc_eq)
qed

lemma lastIndexOf_last:
  assumes "lastIndexOf s p = int k" and "k < j" and "j \<le> length s - length p"
  shows "\<not> startsWith (drop j s) p"
proof -
  let ?xs = "rev [0 ..< Suc (length s - length p)]"
  from assms(1) have f: "find (\<lambda>i. startsWith (drop i s) p) ?xs = Some k"
    unfolding lastIndexOf_def by (cases "find (\<lambda>i. startsWith (drop i s) p) ?xs") simp_all
  from assms(3) have "j < Suc (length s - length p)" by simp
  from find_rev_upt_last [OF f assms(2) this] show ?thesis .
qed








subsection \<open>The exit event and the error log\<close>

lemma settle_fields [simp]:
  "errPromises (settle r) = errPromises r"
  "errorLogs (settle r) = errorLogs r"
  "EOL (settle r) = EOL r"
  "child (settle r) = child r"
  by (simp_all add: settle_def)

lemma emit_fields [simp]:
  "errPromises (emit ev r) = errPromises r"
  "errorLogs (emit ev r) = errorLogs r"
  "EOL (emit ev r) = EOL r"
  "awaiting (emit ev r) = awaiting r"
  "emitted (service (emit ev r)) = emitted (service r) @ [ev]"
  by (simp_all add: emit_def)

lemma settle_idle:
  "awaiting r = [] \<Longrightarrow> awaiting (settle r) = [] \<and> emitted (service (settle r)) = emitted (service r)"
  by (simp add: settle_def)

lemma settled_good:
  assumes "n \<le> length ps" "\<forall>j < n. good (ps ! j)" "settled ps n"
  shows "\<forall>j < n. is_Fulfilled (ps ! j)"
proof -
  have "\<not> list_ex is_Rejected (take n ps)"
  proof
    assume "list_ex is_Rejected (take n ps)"
    then obtain j where "j < n" "is_Rejected (ps ! j)"
      using assms(1) by (auto simp: list_ex_length)
    with assms(2) show False by (cases "ps ! j") auto
  qed
  with assms(3) have "list_all is_Fulfilled (take n ps)" by (simp add: settled_def)
  with assms(1) show ?thesis by (auto simp: list_all_length)
qed

lemma holds_text_update:
  "j < length ps \<Longrightarrow> holds_text (ps ! j) t \<Longrightarrow> ps ! i = Pending (Inr tx) \<Longrightarrow>
     holds_text (ps[i := Fulfilled tx] ! j) t"
  by (cases "i = j") (auto simp: holds_text_def)

lemma good_update:
  "j < length ps \<Longrightarrow> good (ps ! j) \<Longrightarrow> good (ps[i := Fulfilled tx] ! j)"
  by (cases "i = j") auto

lemma lines_logged_handle: "lines_logged eol r \<Longrightarrow> lines_logged eol (handle d r)"
proof (cases d)
  case (StderrData x)
  assume "lines_logged eol r"
  then show ?thesis using StderrData
    by (auto simp: lines_logged_def stderr_data_def nth_append)
next
  case (StderrDecoded i)
  assume "lines_logged eol r"
  then show ?thesis using StderrDecoded
    by (auto simp: lines_logged_def stderr_decoded_def nth_list_update
        split: promise.splits sum.splits)
next
  case (StdoutDecoded x)
  assume "lines_logged eol r"
  then show ?thesis using StdoutDecoded
    by (auto simp: lines_logged_def stdout_decoded_def split: sum.splits)
next
  case (WatcherError x)
  assume "lines_logged eol r"
  then show ?thesis using WatcherError by (auto simp: lines_logged_def)
next
  case (WatcherExit c sg cr crl t)
  assume "lines_logged eol r"
  then show ?thesis using WatcherExit by (auto simp: lines_logged_def minecraft_exit_def Let_def)
next
  case WindowReady
  assume "lines_logged eol r"
  then show ?thesis using WindowReady by (auto simp: lines_logged_def)
qed

lemma before_exit_handle:
  assumes "\<not> is_exit d" and "\<forall>e. d \<noteq> StderrData (Inl e)" and "before_exit s T r"
  shows "before_exit s (T \<union> {tx. d = StderrData (Inr tx)}) (handle d r)"
proof (cases d)
  case (StderrData x)
  with assms(2) obtain tx where x: "x = Inr tx" by (cases x) auto
  have "\<And>t. t \<in> T \<Longrightarrow> \<exists>j<Suc (length (errPromises r)).
            holds_text ((errPromises r @ [Pending (Inr tx)]) ! j) t"
  proof -
    fix t assume "t \<in> T"
    with assms(3) obtain j where "j < length (errPromises r)" "holds_text (errPromises r ! j) t"
      by (auto simp: before_exit_def)
    then show "\<exists>j<Suc (length (errPromises r)).
            holds_text ((errPromises r @ [Pending (Inr tx)]) ! j) t"
      by (intro exI [of _ j]) (simp add: nth_append)
  qed
  moreover have "\<exists>j<Suc (length (errPromises r)).
            holds_text ((errPromises r @ [Pending (Inr tx)]) ! j) tx"
    by (intro exI [of _ "length (errPromises r)"]) (simp add: holds_text_def)
  ultimately show ?thesis using assms(3) StderrData x
    by (auto simp: before_exit_def stderr_data_def nth_append)
next
  case (StderrDecoded i)
  show ?thesis
  proof (cases "i < length (errPromises r)")
    case False
    with assms(3) StderrDecoded show ?thesis by (simp add: stderr_decoded_def)
  next
    case True
    with assms(3) have g: "good (errPromises r ! i)" by (simp add: before_exit_def)
    show ?thesis
    proof (cases "errPromises r ! i")
      case (Pending x)
      with g obtain tx where x: "x = Inr tx" by (cases x) auto
      let ?r1 = "(emit (MinecraftStderr (ChildProcess.pid (child r)) tx) r)
                       \<lparr>errorLogs := errorLogs r @ split tx (EOL r),
                        errPromises := (errPromises r)[i := Fulfilled tx]\<rparr>"
      have h: "handle d r = settle ?r1"
        using StderrDecoded True Pending x by (simp add: stderr_decoded_def)
      have aw: "awaiting ?r1 = []" using assms(3) by (simp add: before_exit_def)
      have "\<And>t. t \<in> T \<Longrightarrow> \<exists>j<length (errPromises r).
            holds_text ((errPromises r)[i := Fulfilled tx] ! j) t"
      proof -
        fix t assume "t \<in> T"
        with assms(3) obtain j where j: "j < length (errPromises r)" "holds_text (errPromises r ! j) t"
          by (auto simp: before_exit_def)
        show "\<exists>j<length (errPromises r). holds_text ((errPromises r)[i := Fulfilled tx] ! j) t"
          using j Pending x holds_text_update [of j "errPromises r" t i tx] by blast
      qed
      moreover have "\<And>j. j < length (errPromises r) \<Longrightarrow>
            good ((errPromises r)[i := Fulfilled tx] ! j)"
        using assms(3) good_update [of _ "errPromises r" i tx] by (simp add: before_exit_def)
      ultimately show ?thesis
        using assms(3) StderrDecoded settle_idle [OF aw] h
        by (simp add: before_exit_def)
    next
      case (Fulfilled t)
      with assms(3) StderrDecoded True show ?thesis by (simp add: stderr_decoded_def)
    next
      case (Rejected e)
      with assms(3) StderrDecoded True show ?thesis by (simp add: stderr_decoded_def)
    qed
  qed
next
  case (StdoutDecoded x)
  with assms(3) show ?thesis
    by (auto simp: before_exit_def stdout_decoded_def split: sum.splits)
next
  case (WatcherError x)
  with assms(3) show ?thesis by (auto simp: before_exit_def)
next
  case (WatcherExit c sg cr crl t)
  with assms(1) show ?thesis by simp
next
  case WindowReady
  with assms(3) show ?thesis by (auto simp: before_exit_def)
qed


lemma run_before_exit:
  assumes "\<forall>d \<in> set ds. \<not> is_exit d" and "\<forall>e. StderrData (Inl e) \<notin> set ds"
    and "before_exit s T r"
  shows "before_exit s (T \<union> {tx. StderrData (Inr tx) \<in> set ds}) (run ds r)"
  using assms
proof (induction ds arbitrary: T r)
  case Nil
  then show ?case by simp
next
  case (Cons d ds)
  from Cons.prems have "before_exit s (T \<union> {tx. d = StderrData (Inr tx)}) (handle d r)"
    by (intro before_exit_handle) auto
  from Cons.IH [OF _ _ this] Cons.prems(1,2)
  have "before_exit s (T \<union> {tx. d = StderrData (Inr tx)} \<union> {tx. StderrData (Inr tx) \<in> set ds})
          (run ds (handle d r))"
    by auto
  moreover have "T \<union> {tx. d = StderrData (Inr tx)} \<union> {tx. StderrData (Inr tx) \<in> set ds}
      = T \<union> {tx. StderrData (Inr tx) \<in> set (d # ds)}"
    by auto
  ultimately show ?case by simp
qed

lemma run_lines_logged: "lines_logged eol r \<Longrightarrow> lines_logged eol (run ds r)"
  by (induction ds arbitrary: r) (simp_all add: lines_logged_handle)

lemma settle_after_exit:
  assumes inv: "after_exit s eol T n r" and lg: "lines_logged eol r"
  shows "after_exit s eol T n (settle r)"
proof -
  let ?P = "errPromises r"
  from inv have n: "n \<le> length ?P" and g: "\<forall>j < n. good (?P ! j)"
    and aw: "\<forall>x \<in> set (awaiting r). snd x = n"
    and ht: "\<forall>tx \<in> T. \<exists>j < n. holds_text (?P ! j) tx"
    and old: "\<forall>e. MinecraftExit e \<in> set (emitted (service r)) \<longrightarrow>
             MinecraftExit e \<in> set (emitted s) \<or> (\<forall>tx \<in> T. carries eol tx e)"
    by (simp_all add: after_exit_def)
  have new: "\<And>ev m tx. (ev, m) \<in> set (awaiting r) \<Longrightarrow> settled ?P m \<Longrightarrow> tx \<in> T \<Longrightarrow>
      carries eol tx (ev\<lparr>errorLog := join (errorLogs r) [CHR 0x0A]\<rparr>)"
  proof -
    fix ev m tx assume a: "(ev, m) \<in> set (awaiting r)" and st: "settled ?P m" and tx: "tx \<in> T"
    from a aw have "m = n" by auto
    with st settled_good [OF n g] have ful: "\<forall>j < n. is_Fulfilled (?P ! j)" by simp
    from ht tx obtain j where j: "j < n" "holds_text (?P ! j) tx" by blast
    with ful have "?P ! j = Fulfilled tx" by (auto simp: holds_text_def)
    moreover from j(1) n have "j < length ?P" by simp
    ultimately have "set (split tx eol) \<subseteq> set (errorLogs r)"
      using lg by (auto simp: lines_logged_def)
    then show "carries eol tx (ev\<lparr>errorLog := join (errorLogs r) [CHR 0x0A]\<rparr>)"
      unfolding carries_def by (intro exI [of _ "errorLogs r"]) simp
  qed
  have ev: "\<forall>e. MinecraftExit e \<in> set (emitted (service (settle r))) \<longrightarrow>
             MinecraftExit e \<in> set (emitted s) \<or> (\<forall>tx \<in> T. carries eol tx e)"
  proof (intro allI impI)
    fix e assume "MinecraftExit e \<in> set (emitted (service (settle r)))"
    then consider "MinecraftExit e \<in> set (emitted (service r))"
      | ev m where "(ev, m) \<in> set (awaiting r)" "settled ?P m"
          "e = ev\<lparr>errorLog := join (errorLogs r) [CHR 0x0A]\<rparr>"
      by (auto simp: settle_def)
    then show "MinecraftExit e \<in> set (emitted s) \<or> (\<forall>tx \<in> T. carries eol tx e)"
    proof cases
      case 1
      with old show ?thesis by blast
    next
      case 2
      with new show ?thesis by blast
    qed
  qed
  have aw': "\<forall>x \<in> set (awaiting (settle r)). snd x = n"
    using aw by (auto simp: settle_def)
  show ?thesis
    unfolding after_exit_def using aw' n g ht ev by simp
qed

lemma exit_after_exit:
  assumes b: "before_exit s T r" and lg: "lines_logged eol r"
  shows "after_exit s eol T (length (errPromises r)) (handle (WatcherExit c sg cr crl t) r)"
proof -
  let ?ev = "\<lparr>ExitEvent.pid = ChildProcess.pid (child r),
                launched = request r, code = c, signal = sg, crashReport = cr,
                duration = t - startTime r,
                crashReportLocation = exit_crashReportLocation crl,
                errorLog = []\<rparr>"
  let ?r1 = "r\<lparr>awaiting := awaiting r @ [(?ev, length (errPromises r))],
              service := (service r)
                \<lparr>processes := (processes (service r))(ChildProcess.pid (child r) := None)\<rparr>\<rparr>"
  have h: "handle (WatcherExit c sg cr crl t) r = settle ?r1"
    by (simp add: minecraft_exit_def Let_def)
  have "after_exit s eol T (length (errPromises r)) ?r1"
    using b by (auto simp: after_exit_def before_exit_def)
  moreover have "lines_logged eol ?r1"
    using lg by (simp add: lines_logged_def)
  ultimately show ?thesis unfolding h by (rule settle_after_exit)
qed

lemma after_exit_same_prefix:
  assumes inv: "after_exit s eol T n r"
    and same: "\<And>j. j < n \<Longrightarrow> errPromises r' ! j = errPromises r ! j"
    and len: "length (errPromises r) \<le> length (errPromises r')"
    and aw: "awaiting r' = awaiting r"
    and em: "emitted (service r') = emitted (service r)"
  shows "after_exit s eol T n r'"
proof -
  have "\<forall>tx \<in> T. \<exists>j < n. holds_text (errPromises r' ! j) tx"
  proof
    fix tx assume "tx \<in> T"
    with inv obtain j where "j < n" "holds_text (errPromises r ! j) tx"
      by (auto simp: after_exit_def)
    with same show "\<exists>j < n. holds_text (errPromises r' ! j) tx"
      by (intro exI [of _ j]) simp
  qed
  then show ?thesis using inv same len aw em
    by (simp add: after_exit_def)
qed

lemma after_exit_handle:
  assumes "\<not> is_exit d" and inv: "after_exit s eol T n r" and lg: "lines_logged eol r"
  shows "after_exit s eol T n (handle d r)"
proof (cases d)
  case (StderrData x)
  have same: "\<And>j. j < n \<Longrightarrow> (errPromises r @ [Pending x]) ! j = errPromises r ! j"
    using inv by (simp add: after_exit_def nth_append)
  show ?thesis unfolding StderrData
    by (rule after_exit_same_prefix [OF inv]) (simp_all add: stderr_data_def same)
next
  case (StderrDecoded i)
  show ?thesis
  proof (cases "i < length (errPromises r)")
    case False
    with inv StderrDecoded show ?thesis by (simp add: stderr_decoded_def)
  next
    case True
    show ?thesis
    proof (cases "errPromises r ! i")
      case (Pending x)
      show ?thesis
      proof (cases x)
        case (Inr tx)
        let ?r1 = "(emit (MinecraftStderr (ChildProcess.pid (child r)) tx) r)
                       \<lparr>errorLogs := errorLogs r @ split tx (EOL r),
                        errPromises := (errPromises r)[i := Fulfilled tx]\<rparr>"
        have h: "handle d r = settle ?r1"
          using StderrDecoded True Pending Inr by (simp add: stderr_decoded_def)
        have lg1: "lines_logged eol ?r1"
          using lines_logged_handle [OF lg, of d] unfolding h by (auto simp: lines_logged_def)
        from inv have n: "n \<le> length (errPromises r)" by (simp add: after_exit_def)
        have g1: "\<forall>j < n. good ((errPromises r)[i := Fulfilled tx] ! j)"
          using inv n good_update [of _ "errPromises r" i tx] by (simp add: after_exit_def)
        have h1: "\<forall>t \<in> T. \<exists>j < n. holds_text ((errPromises r)[i := Fulfilled tx] ! j) t"
        proof
          fix t assume "t \<in> T"
          with inv obtain j where j: "j < n" "holds_text (errPromises r ! j) t"
            by (auto simp: after_exit_def)
          from j(1) n have "j < length (errPromises r)" by simp
          from holds_text_update [OF this j(2), of i tx] Pending Inr j(1)
          show "\<exists>j < n. holds_text ((errPromises r)[i := Fulfilled tx] ! j) t" by blast
        qed
        have "after_exit s eol T n ?r1"
          using inv g1 h1 by (simp add: after_exit_def)
        then show ?thesis unfolding h using lg1 by (rule settle_after_exit)
      next
        case (Inl e)
        let ?r1 = "r\<lparr>errPromises := (errPromises r)[i := Rejected e]\<rparr>"
        have h: "handle d r = settle ?r1"
          using StderrDecoded True Pending Inl by (simp add: stderr_decoded_def)
        from inv have g: "\<forall>j < n. good (errPromises r ! j)" by (simp add: after_exit_def)
        have ni: "n \<le> i"
        proof (rule ccontr)
          assume "\<not> n \<le> i"
          with g have "good (errPromises r ! i)" by simp
          with Pending Inl show False by simp
        qed
        then have same: "\<And>j. j < n \<Longrightarrow> (errPromises r)[i := Rejected e] ! j = errPromises r ! j"
          by simp
        have lg1: "lines_logged eol ?r1"
          using lines_logged_handle [OF lg, of d] unfolding h by (auto simp: lines_logged_def)
        have "after_exit s eol T n ?r1"
          by (rule after_exit_same_prefix [OF inv]) (simp_all add: same)
        then show ?thesis unfolding h using lg1 by (rule settle_after_exit)
      qed
    next
      case (Fulfilled t)
      with inv StderrDecoded True show ?thesis by (simp add: stderr_decoded_def)
    next
      case (Rejected e)
      with inv StderrDecoded True show ?thesis by (simp add: stderr_decoded_def)
    qed
  qed
next
  case (StdoutDecoded x)
  with inv show ?thesis
    by (auto simp: after_exit_def stdout_decoded_def split: sum.splits)
next
  case (WatcherError x)
  with inv show ?thesis by (auto simp: after_exit_def)
next
  case (WatcherExit c sg cr crl t)
  with assms(1) show ?thesis by simp
next
  case WindowReady
  with inv show ?thesis by (auto simp: after_exit_def)
qed


lemma run_after_exit:
  assumes "\<forall>d \<in> set ds. \<not> is_exit d" and "after_exit s eol T n r" and "lines_logged eol r"
  shows "after_exit s eol T n (run ds r)"
  using assms
proof (induction ds arbitrary: r)
  case Nil
  then show ?case by simp
next
  case (Cons d ds)
  from Cons.prems have "after_exit s eol T n (handle d r)"
    by (intro after_exit_handle) auto
  moreover from Cons.prems have "lines_logged eol (handle d r)"
    by (intro lines_logged_handle)
  ultimately show ?case using Cons.IH Cons.prems(1) by simp
qed

lemma run_append: "run (xs @ ys) r = run ys (run xs r)"
  by (induction xs arbitrary: r) simp_all

text \<open>
  Claim C5, as stated: the exit event is emitted only after every chunk of stderr
  received before the end of the process has been decoded and appended to the error
  log. \<open>Promise.all\<close> settles at the first rejection: when the decoding of one chunk
  fails, the exit event is emitted at once, here with an empty error log while the
  first chunk is still being decoded.
\<close>

theorem exit_event_before_decoding_counterexample:
  "emitted (service (run failing_deliveries sample_supervision))
     = [MinecraftExit (sample_exit_event [])]
   \<and> errPromises (run failing_deliveries sample_supervision) ! 0 = Pending (Inr ''first'')"
  by (simp add: failing_deliveries_def sample_supervision_def sample_exit_event_def idle_def
      supervise_def stderr_data_def stderr_decoded_def minecraft_exit_def settle_def settled_def
      exit_crashReportLocation_def if_truthy_def Let_def)

text \<open>
  Claim C5, amended: for every launch whose process ends once, provided the decoding
  of no chunk of stderr received before the end of the process fails, an exit event
  emitted by this launch is emitted after each of these chunks has been decoded and
  appended: its \<open>errorLog\<close> is the join by line feeds of a list of lines that contains
  the lines of each such chunk.
\<close>

theorem exit_event_after_stderr:
  assumes pre: "\<forall>d \<in> set pre. \<not> is_exit d"
    and post: "\<forall>d \<in> set post. \<not> is_exit d"
    and ok: "\<forall>e. StderrData (Inl e) \<notin> set pre"
    and chunk: "StderrData (Inr tx) \<in> set pre"
    and fresh: "MinecraftExit e \<notin> set (emitted s)"
    and ev: "MinecraftExit e \<in> set (emitted (service
                (run (pre @ WatcherExit c sg cr crl t # post) (supervise p options t0 eol s))))"
  shows "\<exists>logs. errorLog e = join logs [CHR 0x0A] \<and> set (split tx eol) \<subseteq> set logs"
proof -
  let ?r0 = "supervise p options t0 eol s"
  let ?T = "{tx. StderrData (Inr tx) \<in> set pre}"
  let ?r1 = "run pre ?r0"
  have b0: "before_exit s {} ?r0" by (simp add: before_exit_def supervise_def)
  have l0: "lines_logged eol ?r0" by (simp add: lines_logged_def supervise_def)
  from run_before_exit [OF pre ok b0] have b1: "before_exit s ?T ?r1" by simp
  from run_lines_logged [OF l0] have l1: "lines_logged eol ?r1" .
  let ?r2 = "handle (WatcherExit c sg cr crl t) ?r1"
  from exit_after_exit [OF b1 l1]
  have a2: "after_exit s eol ?T (length (errPromises ?r1)) ?r2" .
  from lines_logged_handle [OF l1] have l2: "lines_logged eol ?r2" .
  from run_after_exit [OF post a2 l2]
  have "after_exit s eol ?T (length (errPromises ?r1)) (run post ?r2)" .
  moreover have "run (pre @ WatcherExit c sg cr crl t # post) ?r0 = run post ?r2"
    by (simp add: run_append)
  ultimately have "MinecraftExit e \<in> set (emitted s) \<or> (\<forall>tx \<in> ?T. carries eol tx e)"
    using ev by (simp add: after_exit_def)
  with fresh chunk have "carries eol tx e" by blast
  then show ?thesis by (simp add: carries_def)
qed


theorem exit_event_after_stderr_witness:
  "MinecraftExit (sample_exit_event (''third'' @ [CHR 0x0A] @ ''first'' @ [CHR 0x0A] @ ''second''))
     \<in> set (emitted (service (run late_deliveries sample_supervision)))
   \<and> (\<exists>logs. ''third'' @ [CHR 0x0A] @ ''first'' @ [CHR 0x0A] @ ''second'' = join logs [CHR 0x0A]
          \<and> set (split (''first'' @ [CHR 0x0A] @ ''second'') [CHR 0x0A]) \<subseteq> set logs)"
proof -
  let ?pre = "[StderrData (Inr (''first'' @ [CHR 0x0A] @ ''second'')), StderrData (Inr ''third'')]"
  let ?post = "[StderrDecoded 1, StderrData (Inr ''late''), StderrDecoded 0]"
  let ?e = "sample_exit_event (''third'' @ [CHR 0x0A] @ ''first'' @ [CHR 0x0A] @ ''second'')"
  have ev: "MinecraftExit ?e \<in> set (emitted (service
      (run (?pre @ WatcherExit (Some 1) None None None 10 # ?post)
         (supervise \<lparr>ChildProcess.pid = Some 4242\<rparr> sample_options 0 [CHR 0x0A] idle))))"
    by (simp add: sample_exit_event_def idle_def split_def startsWith_def
        supervise_def stderr_data_def stderr_decoded_def minecraft_exit_def settle_def
        settled_def emit_def exit_crashReportLocation_def if_truthy_def Let_def)
  have pre: "\<forall>d \<in> set ?pre. \<not> is_exit d" and post: "\<forall>d \<in> set ?post. \<not> is_exit d"
    and ok: "\<forall>e. StderrData (Inl e) \<notin> set ?pre"
    and chunk: "StderrData (Inr (''first'' @ [CHR 0x0A] @ ''second'')) \<in> set ?pre"
    and fresh: "MinecraftExit ?e \<notin> set (emitted idle)"
    by (simp_all add: idle_def)
  from exit_event_after_stderr [OF pre post ok chunk fresh ev]
  have "\<exists>logs. errorLog ?e = join logs [CHR 0x0A]
          \<and> set (split (''first'' @ [CHR 0x0A] @ ''second'') [CHR 0x0A]) \<subseteq> set logs" .
  moreover have "errorLog ?e = ''third'' @ [CHR 0x0A] @ ''first'' @ [CHR 0x0A] @ ''second''"
    by (simp add: sample_exit_event_def)
  ultimately show ?thesis
    using ev by (simp add: late_deliveries_def sample_supervision_def)
qed

end
